theory Spec2Isabelle
  imports Complex_Main "HOL-Library.Sublist" "HOL-Library.AList"
begin

section \<open>Strings\<close>

text \<open>
  Python strings are modelled as \<^typ>\<open>string\<close>. \<open>str.lower()\<close> is modelled on the ASCII
  letters; every other character is left as it is.
  The test \<open>keyword in text\<close> is the contiguous-substring test.
\<close>

definition lower_char :: "char \<Rightarrow> char" where
  "lower_char c =
     (case map_of (zip ''ABCDEFGHIJKLMNOPQRSTUVWXYZ'' ''abcdefghijklmnopqrstuvwxyz'') c of
        Some l \<Rightarrow> l
      | None \<Rightarrow> c)"

definition lower :: "string \<Rightarrow> string" where
  "lower s = map lower_char s"

primrec str_in :: "string \<Rightarrow> string \<Rightarrow> bool" where
  "str_in k [] = (k = [])"
| "str_in k (c # cs) = (prefix k (c # cs) \<or> str_in k cs)"

section \<open>Exceptions\<close>

text \<open>
  Every exception value carries the text that \<open>str(e)\<close> returns for it. The errors of the
  HTTP library are \<open>HTTPStatusError\<close> (with the status code and the text of the response) and
  the subclasses of \<open>httpx.RequestError\<close>; \<open>PyError\<close> is any other exception, with
  its class name. The errors of \<open>api/exceptions.py\<close> carry the attributes their constructors
  store and, last, the exception named after \<open>from\<close> in the \<open>raise\<close> statement.
\<close>

datatype exn =
    HTTPStatusError string nat string
  | ConnectError string
  | ConnectTimeout string
  | ReadTimeout string
  | WriteTimeout string
  | PoolTimeout string
  | RequestError string
  | PyError string string
  | APIError string "nat option" "string option" "exn option"
  | APIAuthenticationError string "nat option" "string option" "exn option"
  | MaxRetriesExceededError string int "exn option" "nat option" "exn option"
  | SessionExpiredError string "exn option"

definition digit_char :: "nat \<Rightarrow> char" where
  "digit_char d = ''0123456789'' ! d"

function str_of_nat :: "nat \<Rightarrow> string" where
  "str_of_nat n = (if n < 10 then [digit_char n] else str_of_nat (n div 10) @ [digit_char (n mod 10)])"
  by pat_completeness auto
termination
  by (relation "measure (\<lambda>n. n)") auto

definition str_of_int :: "int \<Rightarrow> string" where
  "str_of_int i = (if i < 0 then ''-'' @ str_of_nat (nat (- i)) else str_of_nat (nat i))"

text \<open>\<open>APIError.__str__\<close>: the status code is appended when it is set and not zero.\<close>

definition api_error_str :: "string \<Rightarrow> nat option \<Rightarrow> string" where
  "api_error_str message status_code =
     (case status_code of
        None \<Rightarrow> message
      | Some c \<Rightarrow> if c \<noteq> 0 then message @ '' (HTTP '' @ str_of_nat c @ '')'' else message)"

fun str_exn :: "exn \<Rightarrow> string" where
  "str_exn (HTTPStatusError m c t) = m"
| "str_exn (ConnectError m) = m"
| "str_exn (ConnectTimeout m) = m"
| "str_exn (ReadTimeout m) = m"
| "str_exn (WriteTimeout m) = m"
| "str_exn (PoolTimeout m) = m"
| "str_exn (RequestError m) = m"
| "str_exn (PyError n m) = m"
| "str_exn (APIError m c b cause) = api_error_str m c"
| "str_exn (APIAuthenticationError m c b cause) = api_error_str m c"
| "str_exn (MaxRetriesExceededError m a l c cause) = api_error_str m c"
| "str_exn (SessionExpiredError m cause) = m"

text \<open>Running a function over a list stops at the first exception.\<close>

fun map_exn :: "('a \<Rightarrow> exn + 'b) \<Rightarrow> 'a list \<Rightarrow> exn + 'b list" where
  "map_exn f [] = Inr []"
| "map_exn f (x # xs) =
     (case f x of
        Inl e \<Rightarrow> Inl e
      | Inr y \<Rightarrow> (case map_exn f xs of Inl e \<Rightarrow> Inl e | Inr ys \<Rightarrow> Inr (y # ys)))"

section \<open>Tables\<close>

text \<open>
  A pandas DataFrame is a list of column labels and a list of rows; a cell is null
  (\<open>None\<close> or NaN), a number or a string. Numbers are idealised as reals.
\<close>

datatype cell = CNull | CNum real | CStr string

record dataframe =
  columns :: "string list"
  rows :: "cell list list"

text \<open>\<open>df.rename(columns=mapping)\<close>: a label that is a key of the dict is replaced.\<close>

definition rename :: "dataframe \<Rightarrow> (string \<times> string) list \<Rightarrow> dataframe" where
  "rename df mapping =
     df\<lparr>columns := map (\<lambda>col. case map_of mapping col of Some t \<Rightarrow> t | None \<Rightarrow> col) (columns df)\<rparr>"

text \<open>\<open>df.empty\<close>: one of the two axes has length 0.\<close>

definition empty_df :: "dataframe \<Rightarrow> bool" where
  "empty_df df = (columns df = [] \<or> rows df = [])"

text \<open>\<open>row.get(col)\<close>: the cell under the label, \<open>None\<close> when the row has no such label.\<close>

definition row_get :: "string list \<Rightarrow> cell list \<Rightarrow> string \<Rightarrow> cell option" where
  "row_get cols row col = map_of (zip cols row) col"

text \<open>\<open>df[col]\<close> raises \<open>KeyError\<close> for a label the table does not have.\<close>

definition get_column :: "dataframe \<Rightarrow> string \<Rightarrow> exn + cell list" where
  "get_column df col =
     (if col \<in> set (columns df)
      then Inr (map (\<lambda>row. case row_get (columns df) row col of Some v \<Rightarrow> v | None \<Rightarrow> CNull) (rows df))
      else Inl (PyError ''KeyError'' (CHR 0x27 # col @ [CHR 0x27])))"

text \<open>\<open>df[col] = values\<close>: an existing label has its cells replaced, a new label is
  appended as the last column.\<close>

definition set_column :: "dataframe \<Rightarrow> string \<Rightarrow> cell list \<Rightarrow> dataframe" where
  "set_column df col vals =
     (if col \<in> set (columns df)
      then df\<lparr>rows := map2 (\<lambda>row v. map2 (\<lambda>c x. if c = col then v else x) (columns df) row)
                         (rows df) vals\<rparr>
      else df\<lparr>columns := columns df @ [col], rows := map2 (\<lambda>row v. row @ [v]) (rows df) vals\<rparr>)"

text \<open>\<open>df[col] = value\<close> and \<open>df.assign(col=value)\<close> with one value for every row.\<close>

definition assign_const :: "dataframe \<Rightarrow> string \<Rightarrow> cell \<Rightarrow> dataframe" where
  "assign_const df col v = set_column df col (replicate (length (rows df)) v)"

text \<open>\<open>pd.DataFrame([record])\<close>: the one-row table of a dict, keys in insertion order.\<close>

definition one_row :: "(string \<times> cell) list \<Rightarrow> dataframe" where
  "one_row record = \<lparr>columns = map fst record, rows = [map snd record]\<rparr>"

definition empty_frame :: dataframe where
  "empty_frame = \<lparr>columns = [], rows = []\<rparr>"

definition wf_df :: "dataframe \<Rightarrow> bool" where
  "wf_df df = list_all (\<lambda>row. length row = length (columns df)) (rows df)"

text \<open>
  Python objects live in a store; a reference is an index into it. \<open>df.copy()\<close> allocates a
  new table with the contents of the old one, and an assignment to a column changes the
  table a reference points to.
\<close>

type_synonym store = "dataframe list"

definition df_copy :: "store \<Rightarrow> nat \<Rightarrow> store \<times> nat" where
  "df_copy st r = (st @ [st ! r], length st)"

definition store_set_column :: "store \<Rightarrow> nat \<Rightarrow> string \<Rightarrow> cell list \<Rightarrow> store" where
  "store_set_column st r col vals = st[r := set_column (st ! r) col vals]"

section \<open>Column normalizer (\<open>core/dataframe_helpers.py\<close>)\<close>

type_synonym mapping_rule = "string list \<times> string"

text \<open>The inner loop of \<open>normalize_column_names\<close>: the first rule all of whose keywords
  occur in the lowercased label; \<open>break\<close> ends the search.\<close>

fun first_matching_rule :: "mapping_rule list \<Rightarrow> string \<Rightarrow> string option" where
  "first_matching_rule [] col_lower = None"
| "first_matching_rule ((keywords, target_name) # rest) col_lower =
     (if list_all (\<lambda>keyword. str_in keyword col_lower) keywords then Some target_name
      else first_matching_rule rest col_lower)"

text \<open>The outer loop: the dict \<open>column_mapping\<close>, kept in insertion order.\<close>

fun build_column_mapping ::
  "mapping_rule list \<Rightarrow> string list \<Rightarrow> (string \<times> string) list \<Rightarrow> (string \<times> string) list" where
  "build_column_mapping mapping_rules [] column_mapping = column_mapping"
| "build_column_mapping mapping_rules (col # cols) column_mapping =
     build_column_mapping mapping_rules cols
       (case first_matching_rule mapping_rules (lower col) of
          Some target_name \<Rightarrow> AList.update col target_name column_mapping
        | None \<Rightarrow> column_mapping)"

definition normalize_column_names :: "dataframe \<Rightarrow> mapping_rule list \<Rightarrow> dataframe" where
  "normalize_column_names df mapping_rules =
     (let column_mapping = build_column_mapping mapping_rules (columns df) []
      in if column_mapping \<noteq> [] then rename df column_mapping else df)"

section \<open>Variance and match status (\<open>core/dataframe_helpers.py\<close>)\<close>

definition VARIANCE_TOLERANCE :: real where
  "VARIANCE_TOLERANCE = 0.01"

text \<open>\<open>pd.notna\<close> on the result of \<open>row.get\<close>.\<close>

definition notna :: "cell option \<Rightarrow> bool" where
  "notna v = (case v of None \<Rightarrow> False | Some CNull \<Rightarrow> False | Some _ \<Rightarrow> True)"

text \<open>The operator \<open>-\<close> on two cells that are not null: only numbers can be subtracted.\<close>

fun cell_sub :: "cell \<Rightarrow> cell \<Rightarrow> exn + cell" where
  "cell_sub (CNum a) (CNum b) = Inr (CNum (a - b))"
| "cell_sub a b = Inl (PyError ''TypeError'' ''unsupported operand type(s) for -'')"

text \<open>The lambda that \<open>calculate_variance\<close> applies to every row.\<close>

definition variance_of_row :: "string list \<Rightarrow> string \<Rightarrow> string \<Rightarrow> cell list \<Rightarrow> exn + cell" where
  "variance_of_row cols col1 col2 row =
     (if notna (row_get cols row col1) \<and> notna (row_get cols row col2)
      then (case (row_get cols row col1, row_get cols row col2) of
              (Some a, Some b) \<Rightarrow> cell_sub a b
            | _ \<Rightarrow> Inr CNull)
      else Inr CNull)"

text \<open>\<open>calculate_variance\<close> on the store: the table is copied and the copy receives the
  result column. The parameter \<open>tolerance\<close> is not used by the source.\<close>

definition calculate_variance ::
  "store \<Rightarrow> nat \<Rightarrow> string \<Rightarrow> string \<Rightarrow> string \<Rightarrow> real \<Rightarrow> (exn + nat) \<times> store" where
  "calculate_variance st df col1 col2 result_col tolerance =
     (let (st1, df1) = df_copy st df
      in case map_exn (variance_of_row (columns (st1 ! df1)) col1 col2) (rows (st1 ! df1)) of
           Inl e \<Rightarrow> (Inl e, st1)
         | Inr vals \<Rightarrow> (Inr df1, store_set_column st1 df1 result_col vals))"

text \<open>The inner function \<open>determine_status\<close>; \<open>abs\<close> of a string raises.\<close>

fun determine_status :: "real \<Rightarrow> string \<Rightarrow> string \<Rightarrow> string \<Rightarrow> cell \<Rightarrow> exn + cell" where
  "determine_status tolerance match_label variance_label missing_label CNull = Inr (CStr missing_label)"
| "determine_status tolerance match_label variance_label missing_label (CNum variance) =
     (if \<bar>variance\<bar> < tolerance then Inr (CStr match_label) else Inr (CStr variance_label))"
| "determine_status tolerance match_label variance_label missing_label (CStr s) =
     Inl (PyError ''TypeError'' ''bad operand type for abs()'')"

definition add_match_status ::
  "store \<Rightarrow> nat \<Rightarrow> string \<Rightarrow> string \<Rightarrow> real \<Rightarrow> string \<Rightarrow> string \<Rightarrow> string \<Rightarrow> (exn + nat) \<times> store" where
  "add_match_status st df variance_col status_col tolerance match_label variance_label missing_label =
     (let (st1, df1) = df_copy st df
      in case get_column (st1 ! df1) variance_col of
           Inl e \<Rightarrow> (Inl e, st1)
         | Inr variances \<Rightarrow>
             (case map_exn (determine_status tolerance match_label variance_label missing_label)
                     variances of
                Inl e \<Rightarrow> (Inl e, st1)
              | Inr statuses \<Rightarrow> (Inr df1, store_set_column st1 df1 status_col statuses)))"

text \<open>The two functions on table values: the call on a store that holds the argument only.\<close>

definition result_frame :: "(exn + nat) \<times> store \<Rightarrow> exn + dataframe" where
  "result_frame res = (case res of (Inl e, st) \<Rightarrow> Inl e | (Inr r, st) \<Rightarrow> Inr (st ! r))"

definition calculate_variance_df :: "dataframe \<Rightarrow> string \<Rightarrow> string \<Rightarrow> string \<Rightarrow> exn + dataframe" where
  "calculate_variance_df df col1 col2 result_col =
     result_frame (calculate_variance [df] 0 col1 col2 result_col 0)"

definition add_match_status_df :: "dataframe \<Rightarrow> string \<Rightarrow> real \<Rightarrow> exn + dataframe" where
  "add_match_status_df df variance_col tolerance =
     result_frame (add_match_status [df] 0 variance_col ''match_status'' tolerance
                     ''Match'' ''Variance'' ''Data Missing'')"

section \<open>HTTP retry engine (\<open>api/retry_handler.py\<close>)\<close>

text \<open>
  A wrapped operation is a function on the program state that returns a result or raises.
  The runtime gives the two effects of the standard library the engine uses:
  \<open>time.sleep\<close> and \<open>random.random\<close>. A trace records what the wrapper did: how
  often it invoked the operation, the exceptions those invocations raised (oldest first), and
  the arguments of its calls of \<open>time.sleep\<close>.
  Floats are idealised as reals; log output is left out.
\<close>

record 's runtime =
  time_sleep :: "real \<Rightarrow> 's \<Rightarrow> 's"
  random_random :: "'s \<Rightarrow> real \<times> 's"

record trace =
  calls :: nat
  raised :: "exn list"
  sleeps :: "real list"

record retry_config =
  max_retries :: int
  backoff_factor :: real
  max_backoff :: real
  jitter :: bool

text \<open>\<open>random.uniform(a, b)\<close> is \<open>a + (b - a) * random()\<close>.\<close>

definition random_uniform :: "'s runtime \<Rightarrow> real \<Rightarrow> real \<Rightarrow> 's \<Rightarrow> real \<times> 's" where
  "random_uniform rt a b s = (let (u, s1) = random_random rt s in (a + (b - a) * u, s1))"

text \<open>\<open>_calculate_backoff\<close>. Every call site passes an attempt number of at least 1, so
  the exponent is not negative there.\<close>

definition calculate_backoff ::
  "'s runtime \<Rightarrow> int \<Rightarrow> real \<Rightarrow> real \<Rightarrow> bool \<Rightarrow> 's \<Rightarrow> real \<times> 's" where
  "calculate_backoff rt attempt factor cap with_jitter s =
     (let backoff = min (factor powi (attempt - 1)) cap
      in if with_jitter
         then (let (jitter_amount, s1) = random_uniform rt 0 (backoff * 0.1) s
               in (backoff + jitter_amount, s1))
         else (backoff, s))"

text \<open>
  The \<open>except\<close> clauses of the wrapper, in the order of the source, after
  \<open>attempt += 1\<close>: \<open>Inl\<close> is the exception the clause raises, \<open>Inr ()\<close> stands for
  "sleep for the backoff and \<open>continue\<close>". \<open>APIConnectionError\<close> inherits the
  constructor of \<open>APIError\<close>, which takes no \<open>attempts\<close> argument, so building it
  in the clause for \<open>httpx.RequestError\<close> raises \<open>TypeError\<close>.
\<close>

fun api_except :: "int \<Rightarrow> int \<Rightarrow> exn \<Rightarrow> exn + unit" where
  "api_except retries attempt (HTTPStatusError m status_code text) =
     (let e = HTTPStatusError m status_code text in
      if status_code = 401 then
        Inl (APIAuthenticationError (''Authentication failed (401): '' @ str_exn e)
               (Some status_code) (Some (take 500 text)) (Some e))
      else if status_code = 400 then
        Inl (APIError (''Bad Request (400): '' @ str_exn e)
               (Some status_code) (Some (take 500 text)) (Some e))
      else if status_code = 501 then
        Inl (APIError (''Not Implemented (501): '' @ str_exn e)
               (Some status_code) (Some (take 500 text)) (Some e))
      else if status_code = 500 then
        (if attempt > retries then
           Inl (MaxRetriesExceededError
                  (''Server error (500) persisted after '' @ str_of_int retries @ '' retries'')
                  attempt (Some e) (Some status_code) (Some e))
         else Inr ())
      else
        Inl (APIError (''HTTP error '' @ str_of_nat status_code @ '': '' @ str_exn e)
               (Some status_code) (Some (take 500 text)) (Some e)))"
| "api_except retries attempt (ConnectError m) =
     (if attempt > retries then
        Inl (MaxRetriesExceededError
               (''Connection failed after '' @ str_of_int retries @ '' retries: '' @ m)
               attempt (Some (ConnectError m)) None (Some (ConnectError m)))
      else Inr ())"
| "api_except retries attempt (ConnectTimeout m) =
     (if attempt > retries then
        Inl (MaxRetriesExceededError
               (''Connection failed after '' @ str_of_int retries @ '' retries: '' @ m)
               attempt (Some (ConnectTimeout m)) None (Some (ConnectTimeout m)))
      else Inr ())"
| "api_except retries attempt (ReadTimeout m) =
     (if attempt > retries then
        Inl (MaxRetriesExceededError
               (''Request timeout after '' @ str_of_int retries @ '' retries: '' @ m)
               attempt (Some (ReadTimeout m)) None (Some (ReadTimeout m)))
      else Inr ())"
| "api_except retries attempt (WriteTimeout m) =
     (if attempt > retries then
        Inl (MaxRetriesExceededError
               (''Request timeout after '' @ str_of_int retries @ '' retries: '' @ m)
               attempt (Some (WriteTimeout m)) None (Some (WriteTimeout m)))
      else Inr ())"
| "api_except retries attempt (PoolTimeout m) =
     (if attempt > retries then
        Inl (MaxRetriesExceededError
               (''Request timeout after '' @ str_of_int retries @ '' retries: '' @ m)
               attempt (Some (PoolTimeout m)) None (Some (PoolTimeout m)))
      else Inr ())"
| "api_except retries attempt (RequestError m) =
     (if attempt > retries then
        Inl (PyError ''TypeError''
               (''APIError.__init__() got an unexpected keyword argument '' @
                CHR 0x27 # ''attempts'' @ [CHR 0x27]))
      else Inr ())"
| "api_except retries attempt e = Inl e"

text \<open>The \<open>while\<close> loop of the wrapper. The measure of its termination is the distance of
  \<open>attempt\<close> from \<open>max_retries + 1\<close>.\<close>

function api_retry_loop ::
  "'s runtime \<Rightarrow> retry_config \<Rightarrow> string \<Rightarrow> ('s \<Rightarrow> (exn + 'a) \<times> 's) \<Rightarrow>
   int \<Rightarrow> exn option \<Rightarrow> 's \<Rightarrow> trace \<Rightarrow> (exn + 'a) \<times> 's \<times> trace" where
  "api_retry_loop rt cfg name func attempt last_exception s tr =
     (if attempt \<le> max_retries cfg then
        (case func s of
           (Inr result, s1) \<Rightarrow> (Inr result, s1, tr\<lparr>calls := calls tr + 1\<rparr>)
         | (Inl e, s1) \<Rightarrow>
             (case api_except (max_retries cfg) (attempt + 1) e of
                Inl err \<Rightarrow> (Inl err, s1, tr\<lparr>calls := calls tr + 1, raised := raised tr @ [e]\<rparr>)
              | Inr u \<Rightarrow>
                  (case calculate_backoff rt (attempt + 1) (backoff_factor cfg) (max_backoff cfg)
                          (jitter cfg) s1 of
                     (wait_time, s2) \<Rightarrow>
                       api_retry_loop rt cfg name func (attempt + 1) (Some e)
                         (time_sleep rt wait_time s2)
                         (tr\<lparr>calls := calls tr + 1, raised := raised tr @ [e],
                              sleeps := sleeps tr @ [wait_time]\<rparr>))))
      else
        (Inl (MaxRetriesExceededError
                (''Exhausted all '' @ str_of_int (max_retries cfg) @ '' retries for '' @ name)
                attempt last_exception None last_exception),
         s, tr))"
  by pat_completeness auto
termination
  by (relation "measure (\<lambda>(rt, cfg, name, func, attempt, last_exception, s, tr).
                   nat (max_retries cfg + 1 - attempt))") auto

definition with_api_retry_traced ::
  "'s runtime \<Rightarrow> retry_config \<Rightarrow> string \<Rightarrow> ('s \<Rightarrow> (exn + 'a) \<times> 's) \<Rightarrow>
   's \<Rightarrow> (exn + 'a) \<times> 's \<times> trace" where
  "with_api_retry_traced rt cfg name func s =
     api_retry_loop rt cfg name func 0 None s \<lparr>calls = 0, raised = [], sleeps = []\<rparr>"

text \<open>The decorated function as its callers see it.\<close>

definition with_api_retry ::
  "'s runtime \<Rightarrow> retry_config \<Rightarrow> string \<Rightarrow> ('s \<Rightarrow> (exn + 'a) \<times> 's) \<Rightarrow> 's \<Rightarrow> (exn + 'a) \<times> 's" where
  "with_api_retry rt cfg name func s =
     (case with_api_retry_traced rt cfg name func s of (res, s1, tr) \<Rightarrow> (res, s1))"

text \<open>The defaults of the decorator.\<close>

definition default_retry_config :: retry_config where
  "default_retry_config = \<lparr>max_retries = 3, backoff_factor = 2.0, max_backoff = 32.0, jitter = True\<rparr>"

declare api_retry_loop.simps [simp del]

section \<open>Browser-session retry (\<open>core/session_handler.py\<close>)\<close>

definition DEFAULT_MAX_RETRIES :: int where
  "DEFAULT_MAX_RETRIES = 2"

definition SESSION_ERROR_KEYWORDS :: "string list" where
  "SESSION_ERROR_KEYWORDS =
     [''target closed'', ''session'', ''timeout'', ''navigation'', ''detached'', ''not found'']"

text \<open>
  The object a decorated method belongs to: \<open>hasattr(self, "login_page")\<close> and
  \<open>hasattr(self, "credentials")\<close> are the two options. The methods of the login page are
  collaborators; each may raise.
\<close>

record 's login_page =
  is_logged_out :: "'s \<Rightarrow> (exn + bool) \<times> 's"
  goto :: "string \<Rightarrow> 's \<Rightarrow> (exn + unit) \<times> 's"
  login :: "string \<Rightarrow> string \<Rightarrow> 's \<Rightarrow> (exn + unit) \<times> 's"
  assert_logged_in :: "'s \<Rightarrow> (exn + unit) \<times> 's"

record 's page_object =
  login_page :: "'s login_page option"
  credentials :: "(string \<times> string) list option"

text \<open>\<open>d[key]\<close> on a dict of strings.\<close>

definition dict_item :: "(string \<times> string) list \<Rightarrow> string \<Rightarrow> exn + string" where
  "dict_item d k =
     (case map_of d k of
        None \<Rightarrow> Inl (PyError ''KeyError'' (CHR 0x27 # k @ [CHR 0x27]))
      | Some v \<Rightarrow> Inr v)"

definition is_session_error :: "string \<Rightarrow> bool" where
  "is_session_error error_message = list_ex (\<lambda>phrase. str_in phrase error_message) SESSION_ERROR_KEYWORDS"

text \<open>The three calls that log in again, each argument evaluated before its call.\<close>

definition reauthenticate :: "'s login_page \<Rightarrow> (string \<times> string) list \<Rightarrow> 's \<Rightarrow> (exn + unit) \<times> 's" where
  "reauthenticate lp creds s =
     (case dict_item creds ''base_url'' of
        Inl e \<Rightarrow> (Inl e, s)
      | Inr base_url \<Rightarrow>
          (case goto lp base_url s of
             (Inl e, s1) \<Rightarrow> (Inl e, s1)
           | (Inr u, s1) \<Rightarrow>
               (case dict_item creds ''username'' of
                  Inl e \<Rightarrow> (Inl e, s1)
                | Inr username \<Rightarrow>
                    (case dict_item creds ''password'' of
                       Inl e \<Rightarrow> (Inl e, s1)
                     | Inr password \<Rightarrow>
                         (case login lp username password s1 of
                            (Inl e, s2) \<Rightarrow> (Inl e, s2)
                          | (Inr u, s2) \<Rightarrow> assert_logged_in lp s2)))))"

text \<open>
  The inner \<open>try\<close> block: \<open>Inr True\<close> when the session was logged out and the login
  succeeded (the source then sleeps and continues), \<open>Inr False\<close> when the page is not logged
  out, \<open>Inl\<close> for an exception raised inside the block, the \<open>SessionExpiredError\<close> of
  the missing credentials included.
\<close>

definition try_reauth :: "string \<Rightarrow> 's page_object \<Rightarrow> 's login_page \<Rightarrow> 's \<Rightarrow> (exn + bool) \<times> 's" where
  "try_reauth name self lp s =
     (case is_logged_out lp s of
        (Inl e, s1) \<Rightarrow> (Inl e, s1)
      | (Inr logged_out, s1) \<Rightarrow>
          if logged_out then
            (case credentials self of
               Some creds \<Rightarrow>
                 (case reauthenticate lp creds s1 of
                    (Inl e, s2) \<Rightarrow> (Inl e, s2)
                  | (Inr u, s2) \<Rightarrow> (Inr True, s2))
             | None \<Rightarrow>
                 (Inl (SessionExpiredError
                         (''Session expired but no credentials available for re-auth in '' @ name)
                         None),
                  s1))
          else (Inr False, s1))"

text \<open>
  The \<open>for\<close> loop over \<open>range(1, max_retries + 1)\<close>, by recursion on the list of the
  attempt numbers still to come. Both \<open>continue\<close> statements sleep for
  \<open>min(2**attempt, 8)\<close> seconds first.
\<close>

fun session_retry_loop ::
  "'s runtime \<Rightarrow> int \<Rightarrow> string \<Rightarrow> 's page_object \<Rightarrow> ('s \<Rightarrow> (exn + 'a) \<times> 's) \<Rightarrow>
   int list \<Rightarrow> exn option \<Rightarrow> 's \<Rightarrow> trace \<Rightarrow> (exn + 'a) \<times> 's \<times> trace" where
  "session_retry_loop rt retries name self func [] last_exception s tr =
     (case last_exception of
        Some e \<Rightarrow> (Inl e, s, tr)
      | None \<Rightarrow>
          (Inl (SessionExpiredError
                  (''Unknown error in '' @ name @ '' after '' @ str_of_int retries @ '' retries'')
                  None),
           s, tr))"
| "session_retry_loop rt retries name self func (attempt # rest) last_exception s tr =
     (case func s of
        (Inr result, s1) \<Rightarrow> (Inr result, s1, tr\<lparr>calls := calls tr + 1\<rparr>)
      | (Inl e, s1) \<Rightarrow>
          if \<not> is_session_error (lower (str_exn e)) then
            (Inl e, s1, tr\<lparr>calls := calls tr + 1, raised := raised tr @ [e]\<rparr>)
          else
            (case (case login_page self of
                     Some lp \<Rightarrow> try_reauth name self lp s1
                   | None \<Rightarrow> (Inr False, s1)) of
               (Inr True, s2) \<Rightarrow>
                 session_retry_loop rt retries name self func rest (Some e)
                   (time_sleep rt (min (2 ^ nat attempt) 8) s2)
                   (tr\<lparr>calls := calls tr + 1, raised := raised tr @ [e],
                        sleeps := sleeps tr @ [min (2 ^ nat attempt) 8]\<rparr>)
             | (Inl auth_error, s2) \<Rightarrow>
                 if attempt = retries then
                   (Inl (SessionExpiredError
                           (''Failed to recover session after '' @ str_of_int retries @
                            '' attempts in '' @ name)
                           (Some e)),
                    s2, tr\<lparr>calls := calls tr + 1, raised := raised tr @ [e]\<rparr>)
                 else if attempt < retries then
                   session_retry_loop rt retries name self func rest (Some e)
                     (time_sleep rt (min (2 ^ nat attempt) 8) s2)
                     (tr\<lparr>calls := calls tr + 1, raised := raised tr @ [e],
                        sleeps := sleeps tr @ [min (2 ^ nat attempt) 8]\<rparr>)
                 else (Inl e, s2, tr\<lparr>calls := calls tr + 1, raised := raised tr @ [e]\<rparr>)
             | (Inr False, s2) \<Rightarrow>
                 if attempt < retries then
                   session_retry_loop rt retries name self func rest (Some e)
                     (time_sleep rt (min (2 ^ nat attempt) 8) s2)
                     (tr\<lparr>calls := calls tr + 1, raised := raised tr @ [e],
                        sleeps := sleeps tr @ [min (2 ^ nat attempt) 8]\<rparr>)
                 else (Inl e, s2, tr\<lparr>calls := calls tr + 1, raised := raised tr @ [e]\<rparr>)))"

definition with_session_retry_traced ::
  "'s runtime \<Rightarrow> int \<Rightarrow> string \<Rightarrow> 's page_object \<Rightarrow> ('s \<Rightarrow> (exn + 'a) \<times> 's) \<Rightarrow>
   's \<Rightarrow> (exn + 'a) \<times> 's \<times> trace" where
  "with_session_retry_traced rt retries name self func s =
     session_retry_loop rt retries name self func [1..retries] None s \<lparr>calls = 0, raised = [], sleeps = []\<rparr>"

section \<open>API client (\<open>api/client.py\<close>)\<close>

datatype json = JNull | JBool bool | JNum real | JStr string | JArr "json list" | JObj "(string \<times> json) list"

text \<open>Python truthiness of a decoded JSON value, \<open>len\<close>, and \<open>dict.get\<close>.\<close>

fun truthy :: "json \<Rightarrow> bool" where
  "truthy JNull = False"
| "truthy (JBool b) = b"
| "truthy (JNum x) = (x \<noteq> 0)"
| "truthy (JStr s) = (s \<noteq> [])"
| "truthy (JArr xs) = (xs \<noteq> [])"
| "truthy (JObj kvs) = (kvs \<noteq> [])"

fun py_len :: "json \<Rightarrow> exn + nat" where
  "py_len (JStr s) = Inr (length s)"
| "py_len (JArr xs) = Inr (length xs)"
| "py_len (JObj kvs) = Inr (length kvs)"
| "py_len v = Inl (PyError ''TypeError'' ''object has no len()'')"

definition dict_get :: "(string \<times> json) list \<Rightarrow> string \<Rightarrow> json \<Rightarrow> json" where
  "dict_get d k dflt = (case map_of d k of Some v \<Rightarrow> v | None \<Rightarrow> dflt)"

text \<open>The operator \<open>or\<close>: the left value when it is truthy, else the right one.\<close>

definition py_or :: "json \<Rightarrow> json \<Rightarrow> json" where
  "py_or a b = (if truthy a then a else b)"

text \<open>\<open>s.replace(old, new)\<close> for a pattern that is not empty.\<close>

function str_replace :: "string \<Rightarrow> string \<Rightarrow> string \<Rightarrow> string" where
  "str_replace old new [] = []"
| "str_replace old new (c # cs) =
     (if old \<noteq> [] \<and> prefix old (c # cs)
      then new @ str_replace old new (drop (length old) (c # cs))
      else c # str_replace old new cs)"
  by pat_completeness auto
termination
  by (relation "measure (\<lambda>(old, new, s). length s)") (auto simp: Suc_le_eq)

datatype http_method = GET | POST

record request =
  req_method :: http_method
  req_url :: string
  req_json :: "json option"
  req_headers :: "(string \<times> string) list"

text \<open>A response: \<open>r.status_code\<close>, \<open>r.text\<close>, and what \<open>r.json()\<close> decodes (nothing
  when the body is not JSON).\<close>

record response =
  status_code :: nat
  resp_text :: string
  resp_json :: "json option"

text \<open>
  The environment of the client: the transport (\<open>client.get\<close> and \<open>client.post\<close>),
  \<open>Response.raise_for_status\<close> of the HTTP library, the clock \<open>time.time\<close>, and the
  runtime of the retry engine, all on a state of the outside world.
\<close>

record 'w http_env =
  http_send :: "request \<Rightarrow> 'w \<Rightarrow> (exn + response) \<times> 'w"
  raise_for_status :: "response \<Rightarrow> exn option"
  time_time :: "'w \<Rightarrow> real"
  env_runtime :: "'w runtime"

record token =
  tok_value :: string
  tok_exp :: real

text \<open>The client object with the world it talks to; \<open>sent\<close> lists the requests that have
  been handed to the transport, oldest first.\<close>

record 'w altoro_api =
  api_base :: string
  api_user :: string
  api_pwd :: string
  api_tok :: "token option"
  sent :: "request list"
  world :: 'w

definition TOKEN_REFRESH_BUFFER :: real where
  "TOKEN_REFRESH_BUFFER = 300"

definition api_runtime :: "'w http_env \<Rightarrow> 'w altoro_api runtime" where
  "api_runtime env =
     \<lparr>time_sleep = (\<lambda>d api. api\<lparr>world := time_sleep (env_runtime env) d (world api)\<rparr>),
      random_random = (\<lambda>api. case random_random (env_runtime env) (world api) of
                                (u, w) \<Rightarrow> (u, api\<lparr>world := w\<rparr>))\<rparr>"

definition client_send :: "'w http_env \<Rightarrow> request \<Rightarrow> 'w altoro_api \<Rightarrow> (exn + response) \<times> 'w altoro_api" where
  "client_send env req api =
     (case http_send env req (world api) of
        (res, w) \<Rightarrow> (res, api\<lparr>sent := sent api @ [req], world := w\<rparr>))"

text \<open>The three statements every method runs on its request: the call of the transport,
  \<open>r.raise_for_status()\<close> and \<open>r.json()\<close>.\<close>

definition request_json :: "'w http_env \<Rightarrow> request \<Rightarrow> 'w altoro_api \<Rightarrow> (exn + json) \<times> 'w altoro_api" where
  "request_json env req api =
     (case client_send env req api of
        (Inl e, api1) \<Rightarrow> (Inl e, api1)
      | (Inr r, api1) \<Rightarrow>
          (case raise_for_status env r of
             Some e \<Rightarrow> (Inl e, api1)
           | None \<Rightarrow>
               (case resp_json r of
                  None \<Rightarrow> (Inl (PyError ''JSONDecodeError'' ''Expecting value''), api1)
                | Some j \<Rightarrow> (Inr j, api1))))"

definition headers :: "'w altoro_api \<Rightarrow> (string \<times> string) list" where
  "headers api = (case api_tok api of Some t \<Rightarrow> [(''Authorization'', tok_value t)] | None \<Rightarrow> [])"

definition is_token_expired :: "'w http_env \<Rightarrow> 'w altoro_api \<Rightarrow> bool" where
  "is_token_expired env api =
     (case api_tok api of
        None \<Rightarrow> True
      | Some t \<Rightarrow> (let time_until_expiry = tok_exp t - time_time env (world api)
                  in time_until_expiry < TOKEN_REFRESH_BUFFER))"

definition login_request :: "'w altoro_api \<Rightarrow> request" where
  "login_request api =
     \<lparr>req_method = POST, req_url = api_base api @ ''/api/login'',
      req_json = Some (JObj [(''username'', JStr (api_user api)), (''password'', JStr (api_pwd api))]),
      req_headers = []\<rparr>"

text \<open>The \<open>try\<close> block of \<open>authenticate\<close>.\<close>

definition authenticate_try :: "'w http_env \<Rightarrow> 'w altoro_api \<Rightarrow> (exn + unit) \<times> 'w altoro_api" where
  "authenticate_try env api =
     (case request_json env (login_request api) api of
        (Inl e, api1) \<Rightarrow> (Inl e, api1)
      | (Inr (JObj d), api1) \<Rightarrow>
          (let auth_header = dict_get d ''Authorization'' (JStr []) in
           if \<not> truthy auth_header then
             (Inl (APIAuthenticationError ''No Authorization header in login response'' None None None),
              api1)
           else
             (case auth_header of
                JStr h \<Rightarrow>
                  (let token_value = (if prefix ''Bearer '' h then str_replace ''Bearer '' [] h else h)
                   in (Inr (),
                       api1\<lparr>api_tok := Some \<lparr>tok_value = token_value,
                                               tok_exp = time_time env (world api1) + 3600\<rparr>\<rparr>))
              | _ \<Rightarrow> (Inl (PyError ''AttributeError'' ''object has no attribute startswith''), api1)))
      | (Inr j, api1) \<Rightarrow> (Inl (PyError ''AttributeError'' ''object has no attribute get''), api1))"

text \<open>The handler of \<open>authenticate\<close>: 401 and 403 become \<open>APIAuthenticationError\<close>, any
  other status error is raised again for the decorator.\<close>

definition authenticate_body :: "'w http_env \<Rightarrow> 'w altoro_api \<Rightarrow> (exn + unit) \<times> 'w altoro_api" where
  "authenticate_body env api =
     (case authenticate_try env api of
        (Inl (HTTPStatusError m c t), api1) \<Rightarrow>
          if c = 401 \<or> c = 403 then
            (Inl (APIAuthenticationError (''Invalid credentials for user '' @ api_user api)
                    (Some c) (Some (take 500 t)) (Some (HTTPStatusError m c t))),
             api1)
          else (Inl (HTTPStatusError m c t), api1)
      | other \<Rightarrow> other)"

definition authenticate :: "'w http_env \<Rightarrow> 'w altoro_api \<Rightarrow> (exn + unit) \<times> 'w altoro_api" where
  "authenticate env =
     with_api_retry (api_runtime env)
       \<lparr>max_retries = 2, backoff_factor = 2.0, max_backoff = 32.0, jitter = True\<rparr>
       ''authenticate'' (authenticate_body env)"

definition ensure_valid_token :: "'w http_env \<Rightarrow> 'w altoro_api \<Rightarrow> (exn + unit) \<times> 'w altoro_api" where
  "ensure_valid_token env api = (if is_token_expired env api then authenticate env api else (Inr (), api))"

definition accounts_request :: "'w altoro_api \<Rightarrow> request" where
  "accounts_request api =
     \<lparr>req_method = GET, req_url = api_base api @ ''/api/account'', req_json = None,
      req_headers = headers api\<rparr>"

definition accounts_body :: "'w http_env \<Rightarrow> 'w altoro_api \<Rightarrow> (exn + json) \<times> 'w altoro_api" where
  "accounts_body env api =
     (case ensure_valid_token env api of
        (Inl e, api1) \<Rightarrow> (Inl e, api1)
      | (Inr u, api1) \<Rightarrow>
          (case request_json env (accounts_request api1) api1 of
             (Inl e, api2) \<Rightarrow> (Inl e, api2)
           | (Inr (JObj d), api2) \<Rightarrow>
               (let accounts_list = dict_get d ''Accounts'' (JArr []) in
                case py_len accounts_list of
                  Inl e \<Rightarrow> (Inl e, api2)
                | Inr n \<Rightarrow> (Inr accounts_list, api2))
           | (Inr j, api2) \<Rightarrow> (Inl (PyError ''AttributeError'' ''object has no attribute get''), api2)))"

definition accounts :: "'w http_env \<Rightarrow> 'w altoro_api \<Rightarrow> (exn + json) \<times> 'w altoro_api" where
  "accounts env =
     with_api_retry (api_runtime env)
       \<lparr>max_retries = 3, backoff_factor = 2.0, max_backoff = 32.0, jitter = True\<rparr>
       ''accounts'' (accounts_body env)"

definition details_request :: "'w altoro_api \<Rightarrow> string \<Rightarrow> request" where
  "details_request api account_id =
     \<lparr>req_method = GET, req_url = api_base api @ ''/api/account/'' @ account_id, req_json = None,
      req_headers = headers api\<rparr>"

definition get_account_details_body ::
  "'w http_env \<Rightarrow> string \<Rightarrow> 'w altoro_api \<Rightarrow> (exn + json) \<times> 'w altoro_api" where
  "get_account_details_body env account_id api =
     (case ensure_valid_token env api of
        (Inl e, api1) \<Rightarrow> (Inl e, api1)
      | (Inr u, api1) \<Rightarrow> request_json env (details_request api1 account_id) api1)"

definition get_account_details ::
  "'w http_env \<Rightarrow> string \<Rightarrow> 'w altoro_api \<Rightarrow> (exn + json) \<times> 'w altoro_api" where
  "get_account_details env account_id =
     with_api_retry (api_runtime env)
       \<lparr>max_retries = 3, backoff_factor = 2.0, max_backoff = 32.0, jitter = True\<rparr>
       ''get_account_details'' (get_account_details_body env account_id)"

text \<open>\<open>if start and end\<close>: both dates given and not empty select the POST with the date
  range, anything else the GET of the recent transactions.\<close>

definition transactions_request :: "'w altoro_api \<Rightarrow> string \<Rightarrow> string option \<Rightarrow> string option \<Rightarrow> request" where
  "transactions_request api account_id start_arg end_arg =
     (case (start_arg, end_arg) of
        (Some start_date, Some end_date) \<Rightarrow>
          if start_date \<noteq> [] \<and> end_date \<noteq> [] then
            \<lparr>req_method = POST,
             req_url = api_base api @ ''/api/account/'' @ account_id @ ''/transactions'',
             req_json = Some (JObj [(''startDate'', JStr start_date), (''endDate'', JStr end_date)]),
             req_headers = headers api\<rparr>
          else
            \<lparr>req_method = GET,
             req_url = api_base api @ ''/api/account/'' @ account_id @ ''/transactions'',
             req_json = None, req_headers = headers api\<rparr>
      | _ \<Rightarrow>
          \<lparr>req_method = GET,
           req_url = api_base api @ ''/api/account/'' @ account_id @ ''/transactions'',
           req_json = None, req_headers = headers api\<rparr>)"

text \<open>The unwrapping of the response of the transactions call, with the \<open>len\<close> of the
  log line that follows it.\<close>

fun unwrap_transactions :: "json \<Rightarrow> exn + json" where
  "unwrap_transactions (JObj response) =
     (let transactions =
            py_or (dict_get response ''transactions'' JNull)
              (py_or (dict_get response ''lastTenTransactions'' JNull)
                 (py_or (dict_get response ''Transactions'' JNull) (JArr [])))
      in case py_len transactions of Inl e \<Rightarrow> Inl e | Inr n \<Rightarrow> Inr transactions)"
| "unwrap_transactions (JArr response) = Inr (JArr response)"
| "unwrap_transactions response = Inr (JArr [])"

definition transactions_body ::
  "'w http_env \<Rightarrow> string \<Rightarrow> string option \<Rightarrow> string option \<Rightarrow> 'w altoro_api \<Rightarrow>
   (exn + json) \<times> 'w altoro_api" where
  "transactions_body env account_id start_arg end_arg api =
     (case ensure_valid_token env api of
        (Inl e, api1) \<Rightarrow> (Inl e, api1)
      | (Inr u, api1) \<Rightarrow>
          (case request_json env (transactions_request api1 account_id start_arg end_arg) api1 of
             (Inl e, api2) \<Rightarrow> (Inl e, api2)
           | (Inr response, api2) \<Rightarrow> (unwrap_transactions response, api2)))"

definition transactions ::
  "'w http_env \<Rightarrow> string \<Rightarrow> string option \<Rightarrow> string option \<Rightarrow> 'w altoro_api \<Rightarrow>
   (exn + json) \<times> 'w altoro_api" where
  "transactions env account_id start_arg end_arg =
     with_api_retry (api_runtime env)
       \<lparr>max_retries = 3, backoff_factor = 2.0, max_backoff = 32.0, jitter = True\<rparr>
       ''transactions'' (transactions_body env account_id start_arg end_arg)"

section \<open>Transaction reconciliation (\<open>orchestration/api_validate.py\<close>)\<close>

text \<open>
  Three operations of pandas are taken as they come, as parameters: the grouped
  aggregation \<open>df.groupby(col).agg(d).reset_index()\<close>, the outer join
  \<open>pd.merge(a, b, on=col, how="outer")\<close>, and the conversion of one cell by
  \<open>astype(str)\<close>. The first two may raise.
\<close>

record pandas =
  groupby_agg :: "dataframe \<Rightarrow> string \<Rightarrow> (string \<times> string) list \<Rightarrow> exn + dataframe"
  merge_outer :: "dataframe \<Rightarrow> dataframe \<Rightarrow> string \<Rightarrow> exn + dataframe"
  astype_str :: "cell \<Rightarrow> cell"

definition bind_exn :: "exn + 'a \<Rightarrow> ('a \<Rightarrow> exn + 'b) \<Rightarrow> exn + 'b" where
  "bind_exn m f = (case m of Inl e \<Rightarrow> Inl e | Inr v \<Rightarrow> f v)"

fun str_join :: "string \<Rightarrow> string list \<Rightarrow> string" where
  "str_join sep [] = []"
| "str_join sep [x] = x"
| "str_join sep (x # y # ys) = x @ sep @ str_join sep (y # ys)"

text \<open>The difference of two columns, \<open>df[a] - df[b]\<close>: null where a side is null.\<close>

fun cell_sub_na :: "cell \<times> cell \<Rightarrow> exn + cell" where
  "cell_sub_na (CNum a, CNum b) = Inr (CNum (a - b))"
| "cell_sub_na (CNull, CNum b) = Inr CNull"
| "cell_sub_na (CNum a, CNull) = Inr CNull"
| "cell_sub_na (CNull, CNull) = Inr CNull"
| "cell_sub_na (a, b) = Inl (PyError ''TypeError'' ''unsupported operand type(s) for -'')"

definition column_diff :: "dataframe \<Rightarrow> string \<Rightarrow> string \<Rightarrow> exn + cell list" where
  "column_diff df a b =
     bind_exn (get_column df a) (\<lambda>xs.
     bind_exn (get_column df b) (\<lambda>ys.
     map_exn cell_sub_na (zip xs ys)))"

definition calculate_net_amount :: "dataframe \<Rightarrow> string \<Rightarrow> string \<Rightarrow> string \<Rightarrow> exn + dataframe" where
  "calculate_net_amount df credit_col debit_col result_col =
     bind_exn (column_diff df credit_col debit_col) (\<lambda>vals. Inr (set_column df result_col vals))"

definition group_and_sum_by_account ::
  "pandas \<Rightarrow> dataframe \<Rightarrow> string \<Rightarrow> string list \<Rightarrow> string \<Rightarrow> exn + dataframe" where
  "group_and_sum_by_account pd df group_col sum_cols count_col =
     (let agg_dict = AList.update count_col ''count''
                       (foldl (\<lambda>d col. AList.update col ''sum'' d) [] sum_cols)
      in bind_exn (groupby_agg pd df group_col agg_dict) (\<lambda>result.
           Inr (result\<lparr>columns := map (\<lambda>col. if col = count_col then ''transaction_count'' else col)
                                      (columns result)\<rparr>)))"

definition summarize_api_transactions :: "pandas \<Rightarrow> dataframe \<Rightarrow> exn + dataframe" where
  "summarize_api_transactions pd api_df =
     (if empty_df api_df then Inr empty_frame
      else
        (let required_cols = [''account_id'', ''debit'', ''credit'', ''transaction_id''];
             missing_cols = filter (\<lambda>col. col \<notin> set (columns api_df)) required_cols
         in if missing_cols \<noteq> [] then
              Inr (one_row [(''Status'', CStr ''Cannot summarize transactions''),
                            (''Missing_Columns'', CStr (str_join '', '' missing_cols)),
                            (''Available_Columns'', CStr (str_join '', '' (columns api_df)))])
            else
              (case bind_exn (group_and_sum_by_account pd api_df ''account_id''
                                [''debit'', ''credit''] ''transaction_id'') (\<lambda>summary.
                    bind_exn (Inr (rename summary [(''debit'', ''total_debits''),
                                                   (''credit'', ''total_credits'')])) (\<lambda>summary.
                    bind_exn (calculate_net_amount summary ''total_credits'' ''total_debits''
                                ''net_amount'') (\<lambda>summary.
                    Inr (assign_const summary ''data_source'' (CStr ''Transaction Summary''))))) of
                 Inr summary \<Rightarrow> Inr summary
               | Inl e \<Rightarrow>
                   Inr (one_row [(''Status'', CStr ''Error summarizing transactions''),
                                 (''Error'', CStr (str_exn e))]))))"

definition display_to_programmatic :: "(string \<times> string) list" where
  "display_to_programmatic =
     [(''Transaction ID'', ''transaction_id''), (''Transaction Time'', ''transaction_time''),
      (''Account ID'', ''account_id''), (''Action'', ''action''), (''Debit'', ''debit''),
      (''Credit'', ''credit'')]"

definition fuzzy_rules :: "mapping_rule list" where
  "fuzzy_rules =
     [([''account'', ''id''], ''account_id''), ([''account'', ''number''], ''account_id''),
      ([''transaction'', ''id''], ''transaction_id'')]"

text \<open>\<open>df["account_id"] = df["account_id"].astype(str)\<close> on a copy, when the table has
  the column.\<close>

definition account_id_as_str :: "pandas \<Rightarrow> dataframe \<Rightarrow> dataframe" where
  "account_id_as_str pd df =
     (if ''account_id'' \<in> set (columns df) then
        (case get_column df ''account_id'' of
           Inr vals \<Rightarrow> set_column df ''account_id'' (map (astype_str pd) vals)
         | Inl e \<Rightarrow> df)
      else df)"

text \<open>The first part of \<open>_reconcile_transactions\<close>: the web table with its labels
  normalized, first by the exact display names, then by the keyword rules.\<close>

definition normalize_web :: "pandas \<Rightarrow> dataframe \<Rightarrow> dataframe" where
  "normalize_web pd web_df =
     account_id_as_str pd
       (normalize_column_names
          (rename web_df
             (List.map_filter
                (\<lambda>col. case map_of display_to_programmatic col of
                          Some v \<Rightarrow> Some (col, v)
                        | None \<Rightarrow> None)
                (columns web_df)))
          fuzzy_rules)"

text \<open>The last part: both sides grouped, joined and compared.\<close>

definition reconcile_grouped :: "pandas \<Rightarrow> dataframe \<Rightarrow> dataframe \<Rightarrow> exn + dataframe" where
  "reconcile_grouped pd api_df web_normalized =
     (case bind_exn (group_and_sum_by_account pd api_df ''account_id'' [''debit'', ''credit'']
                       ''transaction_id'') (\<lambda>api_summary.
             Inr (rename api_summary [(''debit'', ''api_total_debits''),
                                      (''credit'', ''api_total_credits''),
                                      (''transaction_count'', ''api_txn_count'')])) of
        Inl e \<Rightarrow> Inr (one_row [(''Status'', CStr ''Error grouping API transactions''),
                               (''Error'', CStr (str_exn e))])
      | Inr api_summary \<Rightarrow>
          (case bind_exn (group_and_sum_by_account pd web_normalized ''account_id''
                            [''debit'', ''credit''] ''transaction_id'') (\<lambda>web_summary.
                  Inr (rename web_summary [(''debit'', ''web_total_debits''),
                                           (''credit'', ''web_total_credits''),
                                           (''transaction_count'', ''web_txn_count'')])) of
             Inl e \<Rightarrow> Inr (one_row [(''Status'', CStr ''Error grouping web transactions''),
                                    (''Error'', CStr (str_exn e))])
           | Inr web_summary \<Rightarrow>
               bind_exn (merge_outer pd api_summary web_summary ''account_id'') (\<lambda>merged.
               bind_exn (calculate_variance_df merged ''api_total_debits'' ''web_total_debits''
                           ''debit_variance'') (\<lambda>merged.
               bind_exn (calculate_variance_df merged ''api_total_credits'' ''web_total_credits''
                           ''credit_variance'') (\<lambda>merged.
               bind_exn (calculate_variance_df merged ''api_txn_count'' ''web_txn_count''
                           ''txn_count_variance'') (\<lambda>merged.
               bind_exn (column_diff merged ''api_total_credits'' ''api_total_debits'') (\<lambda>api_net.
               bind_exn (Inr (set_column merged ''api_net'' api_net)) (\<lambda>merged.
               bind_exn (column_diff merged ''web_total_credits'' ''web_total_debits'') (\<lambda>web_net.
               bind_exn (Inr (set_column merged ''web_net'' web_net)) (\<lambda>merged.
               bind_exn (calculate_variance_df merged ''api_net'' ''web_net'' ''net_variance'')
                 (\<lambda>merged.
               add_match_status_df merged ''net_variance'' VARIANCE_TOLERANCE)))))))))))"

definition reconcile_transactions :: "pandas \<Rightarrow> dataframe \<Rightarrow> dataframe \<Rightarrow> exn + dataframe" where
  "reconcile_transactions pd api_df0 web_df =
     (let web_normalized = normalize_web pd web_df;
          api_df = account_id_as_str pd api_df0
      in if empty_df api_df then
           (if \<not> empty_df web_normalized then
              (case bind_exn (summarize_api_transactions pd web_normalized) (\<lambda>summary.
                      Inr (assign_const summary ''data_source'' (CStr ''Web Only (API Empty)''))) of
                 Inr tagged \<Rightarrow> Inr tagged
               | Inl e \<Rightarrow>
                   Inr (one_row [(''Status'', CStr ''API Empty - Web Data Available''),
                                 (''API_Transactions'', CNum 0),
                                 (''Web_Transactions'', CNum (real (length (rows web_normalized)))),
                                 (''Note'', CStr ''Cannot reconcile - API returned no transactions'')]))
            else Inr (one_row [(''Status'', CStr ''No transaction data available from API or Web'')]))
         else if empty_df web_normalized then
           (case bind_exn (summarize_api_transactions pd api_df) (\<lambda>summary.
                   Inr (assign_const summary ''data_source'' (CStr ''API Only (Web Empty)''))) of
              Inr tagged \<Rightarrow> Inr tagged
            | Inl e \<Rightarrow>
                Inr (one_row [(''Status'', CStr ''Web Empty - API Data Available''),
                              (''API_Transactions'', CNum (real (length (rows api_df)))),
                              (''Web_Transactions'', CNum 0),
                              (''Note'', CStr ''Cannot reconcile - Web returned no transactions'')]))
         else if ''account_id'' \<notin> set (columns api_df) then
           Inr (one_row [(''Status'', CStr ''Error: API data malformed''),
                         (''Details'', CStr ''Missing account_id column'')])
         else if ''account_id'' \<notin> set (columns web_normalized) then
           Inr (one_row [(''Status'', CStr ''Error: Web data malformed''),
                         (''Details'', CStr ''Missing account_id column'')])
         else reconcile_grouped pd api_df web_normalized)"

section \<open>Example tables\<close>

text \<open>The rows of the reconciliation example: equal balances, balances that differ by 10,
  and an account the web side does not have; then the same table after each of the two helpers.\<close>

definition recon_rows :: dataframe where
  "recon_rows = \<lparr>columns = [''account_id'', ''balance'', ''balance_web''],
                 rows = [[CStr ''1'', CNum 100, CNum 100], [CStr ''1'', CNum 100, CNum 90],
                         [CStr ''1'', CNum 100, CNull]]\<rparr>"

definition recon_rows_variance :: dataframe where
  "recon_rows_variance = \<lparr>columns = [''account_id'', ''balance'', ''balance_web'', ''balance_variance''],
                 rows = [[CStr ''1'', CNum 100, CNum 100, CNum 0], [CStr ''1'', CNum 100, CNum 90, CNum 10],
                         [CStr ''1'', CNum 100, CNull, CNull]]\<rparr>"

definition recon_rows_status :: dataframe where
  "recon_rows_status = \<lparr>columns = [''account_id'', ''balance'', ''balance_web'', ''balance_variance'', ''match_status''],
                 rows = [[CStr ''1'', CNum 100, CNum 100, CNum 0, CStr ''Match''],
                         [CStr ''1'', CNum 100, CNum 90, CNum 10, CStr ''Variance''],
                         [CStr ''1'', CNum 100, CNull, CNull, CStr ''Data Missing'']]\<rparr>"

text \<open>A table whose first column has the name that is passed as the result column.\<close>

definition overwrite_example :: dataframe where
  "overwrite_example = \<lparr>columns = [''a'', ''b''], rows = [[CNum 5, CNum 3]]\<rparr>"

section \<open>Classes of errors and example operations\<close>

text \<open>The errors the HTTP wrapper answers with a backoff and another attempt while attempts
  remain: status 500 and every subclass of \<open>httpx.RequestError\<close>.\<close>

fun retryable :: "exn \<Rightarrow> bool" where
  "retryable (HTTPStatusError m c t) = (c = 500)"
| "retryable (ConnectError m) = True"
| "retryable (ConnectTimeout m) = True"
| "retryable (ReadTimeout m) = True"
| "retryable (WriteTimeout m) = True"
| "retryable (PoolTimeout m) = True"
| "retryable (RequestError m) = True"
| "retryable e = False"

text \<open>A runtime on a counter: sleeping changes nothing and every random draw is one half.
  A runtime whose state is the value of the next random draw.\<close>

definition quiet_runtime :: "nat runtime" where
  "quiet_runtime = \<lparr>time_sleep = (\<lambda>d s. s), random_random = (\<lambda>s. (1 / 2, s))\<rparr>"

definition draw_runtime :: "real runtime" where
  "draw_runtime = \<lparr>time_sleep = (\<lambda>d u. u), random_random = (\<lambda>u. (u, u))\<rparr>"

text \<open>Operations that count their invocations in the state and fail every time: with the
  given HTTP status, and with a timeout of the browser.\<close>

definition failing_status :: "nat \<Rightarrow> nat \<Rightarrow> (exn + unit) \<times> nat" where
  "failing_status c n = (Inl (HTTPStatusError (''error in call '' @ str_of_nat n) c ''body''), Suc n)"

definition failing_timeout :: "nat \<Rightarrow> (exn + unit) \<times> nat" where
  "failing_timeout n = (Inl (PyError ''TimeoutError'' ''Timeout 30000ms exceeded''), Suc n)"

definition bare_page :: "nat page_object" where
  "bare_page = \<lparr>login_page = None, credentials = None\<rparr>"

section \<open>Example replies and an example client\<close>

text \<open>A reply of the transactions call whose first field is an empty array.\<close>

definition recent_reply :: "(string \<times> json) list" where
  "recent_reply = [(''transactions'', JArr []),
                   (''lastTenTransactions'', JArr [JObj [(''id'', JNum 1)]]),
                   (''Transactions'', JArr [JObj [(''id'', JNum 2)]])]"

text \<open>An environment whose world is the clock: sleeping advances it, the server cannot be
  reached, and every random draw is 0. A client that was given a token at time 0 (so that
  the token expires at 3600), looked at when the clock shows \<open>now\<close>.\<close>

definition clock_env :: "real http_env" where
  "clock_env =
     \<lparr>http_send = (\<lambda>req w. (Inl (ConnectError ''connection refused''), w)),
      raise_for_status = (\<lambda>r. None),
      time_time = (\<lambda>w. w),
      env_runtime = \<lparr>time_sleep = (\<lambda>d w. w + d), random_random = (\<lambda>w. (0, w))\<rparr>\<rparr>"

definition client_at :: "real \<Rightarrow> real altoro_api" where
  "client_at now =
     \<lparr>api_base = ''http://bank'', api_user = ''admin'', api_pwd = ''secret'',
      api_tok = Some \<lparr>tok_value = ''abc'', tok_exp = 3600\<rparr>, sent = [], world = now\<rparr>"

section \<open>Example inputs of the reconciliation\<close>

text \<open>Two web tables with one and two transactions: the first lacks the amount columns,
  the second has every column. Two instances of the pandas parameters: one whose
  aggregation raises, one whose aggregation returns the per-account sums of the second
  table.\<close>

definition web_without_amounts :: dataframe where
  "web_without_amounts = \<lparr>columns = [''Account ID'', ''Action''], rows = [[CStr ''800002'', CStr ''Deposit'']]\<rparr>"

definition web_complete :: dataframe where
  "web_complete =
     \<lparr>columns = [''Transaction ID'', ''Account ID'', ''Debit'', ''Credit''],
      rows = [[CStr ''10'', CStr ''800002'', CNum 5, CNum 0],
              [CStr ''11'', CStr ''800003'', CNum 0, CNum 7]]\<rparr>"

definition raising_pandas :: pandas where
  "raising_pandas =
     \<lparr>groupby_agg = (\<lambda>df col d. Inl (PyError ''TypeError'' ''unsupported operand'')),
      merge_outer = (\<lambda>a b col. Inl (PyError ''KeyError'' col)),
      astype_str = (\<lambda>c. c)\<rparr>"

definition summing_pandas :: pandas where
  "summing_pandas =
     \<lparr>groupby_agg = (\<lambda>df col d.
         Inr \<lparr>columns = [''account_id'', ''debit'', ''credit'', ''transaction_id''],
              rows = [[CStr ''800002'', CNum 5, CNum 0, CNum 1],
                      [CStr ''800003'', CNum 0, CNum 7, CNum 1]]\<rparr>),
      merge_outer = (\<lambda>a b col. Inl (PyError ''KeyError'' col)),
      astype_str = (\<lambda>c. c)\<rparr>"

section \<open>Properties of the column normalizer\<close>

lemma str_in_sublist: "str_in k s = sublist k s"
  by (induction s) (auto simp: sublist_Cons_right)

lemma first_matching_rule_find:
  "first_matching_rule rules cl =
     map_option snd (find (\<lambda>(keywords, target). \<forall>k\<in>set keywords. sublist k cl) rules)"
  by (induction rules cl rule: first_matching_rule.induct) (auto simp: list_all_iff str_in_sublist)

lemma map_of_build_column_mapping:
  "map_of (build_column_mapping rules cols m) c =
     (if c \<in> set cols
      then (case first_matching_rule rules (lower c) of Some t \<Rightarrow> Some t | None \<Rightarrow> map_of m c)
      else map_of m c)"
  by (induction cols arbitrary: m) (auto simp: update_conv' split: option.splits)

lemma rename_nil: "rename df [] = df"
  by (simp add: rename_def)

lemma normalize_column_names_rename:
  "normalize_column_names df rules = rename df (build_column_mapping rules (columns df) [])"
  by (simp add: normalize_column_names_def Let_def rename_nil)

text \<open>
  Claim C8. For every table and rule list the normalizer renames each column to the target
  of the first rule all of whose keywords are substrings of the lowercased label, leaves a
  column no rule matches as it is, and does not touch the rows; the rule
  \<open>(["account", "id"], "account_id")\<close> renames \<open>Account ID/Number\<close> and leaves
  \<open>Account Name\<close>.
\<close>

theorem normalize_column_names_first_match:
  "columns (normalize_column_names df rules) =
     map (\<lambda>col. case find (\<lambda>(keywords, target). \<forall>k\<in>set keywords. sublist k (lower col)) rules of
                  Some (keywords, target) \<Rightarrow> target
                | None \<Rightarrow> col)
         (columns df)
   \<and> rows (normalize_column_names df rules) = rows df
   \<and> columns (normalize_column_names
                 \<lparr>columns = [''Account ID/Number'', ''Account Name''], rows = rs\<rparr>
                 [([''account'', ''id''], ''account_id'')])
       = [''account_id'', ''Account Name'']"
proof (intro conjI)
  show "columns (normalize_column_names df rules) =
     map (\<lambda>col. case find (\<lambda>(keywords, target). \<forall>k\<in>set keywords. sublist k (lower col)) rules of
                  Some (keywords, target) \<Rightarrow> target
                | None \<Rightarrow> col)
         (columns df)"
    unfolding normalize_column_names_rename rename_def
    by (auto simp: map_of_build_column_mapping first_matching_rule_find split: option.splits)
  show "rows (normalize_column_names df rules) = rows df"
    unfolding normalize_column_names_rename rename_def by simp
  show "columns (normalize_column_names
                 \<lparr>columns = [''Account ID/Number'', ''Account Name''], rows = rs\<rparr>
                 [([''account'', ''id''], ''account_id'')])
       = [''account_id'', ''Account Name'']"
    by (simp add: normalize_column_names_def lower_def lower_char_def rename_def)
qed

theorem normalize_column_names_first_match_witness:
  "columns (normalize_column_names
              \<lparr>columns = [''Account ID'', ''Account Number'', ''Total Balance'', ''Notes''], rows = [[CStr ''800002'', CStr ''800002'', CNum 5, CNull]]\<rparr>
              [([''account'', ''id''], ''account_id''), ([''account'', ''number''], ''account_id''),
               ([''total'', ''balance''], ''total''), ([''balance''], ''any_balance'')])
     = [''account_id'', ''account_id'', ''total'', ''Notes'']"
  using normalize_column_names_first_match
    [of "\<lparr>columns = [''Account ID'', ''Account Number'', ''Total Balance'', ''Notes''], rows = [[CStr ''800002'', CStr ''800002'', CNum 5, CNull]]\<rparr>"
        "[([''account'', ''id''], ''account_id''), ([''account'', ''number''], ''account_id''),
               ([''total'', ''balance''], ''total''), ([''balance''], ''any_balance'')]"]
  by (simp add: lower_def lower_char_def sublist_Cons_right)

subsection \<open>Tables\<close>

lemma map_exn_Inr:
  "map_exn f xs = Inr ys \<Longrightarrow> length ys = length xs \<and> (\<forall>i<length xs. f (xs ! i) = Inr (ys ! i))"
proof (induction xs arbitrary: ys)
  case Nil
  then show ?case by simp
next
  case (Cons x xs)
  then show ?case
    by (auto split: sum.splits simp: nth_Cons split: nat.splits)
qed

lemma map_of_zip_map2:
  "map_of (zip cols (map2 f cols row)) k = map_option (f k) (map_of (zip cols row) k)"
proof (induction cols arbitrary: row)
  case Nil
  then show ?case by simp
next
  case (Cons c cols)
  then show ?case by (cases row) auto
qed

lemma map_of_zip_cases:
  assumes "length row = length cols"
  obtains (absent) "k \<notin> set cols" "map_of (zip cols row) k = None"
        | (present) x where "k \<in> set cols" "map_of (zip cols row) k = Some x"
proof (cases "k \<in> set cols")
  case True
  with assms have "map_of (zip cols row) k \<noteq> None" by simp
  then obtain x where "map_of (zip cols row) k = Some x" by blast
  with True show ?thesis by (rule present)
next
  case False
  with assms have "map_of (zip cols row) k = None" by simp
  with False show ?thesis by (rule absent)
qed

lemma map_of_zip_snoc:
  assumes "length row = length cols"
  shows "map_of (zip (cols @ [col]) (row @ [v])) k =
     (case map_of (zip cols row) k of Some x \<Rightarrow> Some x | None \<Rightarrow> if k = col then Some v else None)"
proof -
  have eq: "map_of (zip (cols @ [col]) (row @ [v])) k = (map_of [(col, v)] ++ map_of (zip cols row)) k"
    using assms by simp
  from assms show ?thesis
  proof (cases rule: map_of_zip_cases [where k = k])
    case absent
    then show ?thesis unfolding eq by (simp add: map_add_def)
  next
    case (present x)
    then show ?thesis unfolding eq by (simp only: map_add_def option.case)
  qed
qed

lemma row_get_set_column:
  assumes "i < length (rows df)" and "length vals = length (rows df)"
    and "length (rows df ! i) = length (columns df)"
  shows "row_get (columns (set_column df col vals)) (rows (set_column df col vals) ! i) k =
           (if k = col then Some (vals ! i) else row_get (columns df) (rows df ! i) k)"
proof (cases "col \<in> set (columns df)")
  case True
  have new_row: "row_get (columns (set_column df col vals)) (rows (set_column df col vals) ! i) k =
      map_option (\<lambda>x. if k = col then vals ! i else x) (map_of (zip (columns df) (rows df ! i)) k)"
    using True assms by (simp add: set_column_def row_get_def map_of_zip_map2)
  from assms(3) show ?thesis
  proof (cases rule: map_of_zip_cases [where k = k])
    case absent
    with True have "k \<noteq> col" by auto
    with absent show ?thesis unfolding new_row by (simp add: row_get_def)
  next
    case (present x)
    then show ?thesis unfolding new_row by (simp add: row_get_def)
  qed
next
  case False
  have cols: "columns (set_column df col vals) = columns df @ [col]"
    and rws: "rows (set_column df col vals) ! i = rows df ! i @ [vals ! i]"
    using False assms by (simp_all add: set_column_def)
  have new_row: "row_get (columns (set_column df col vals)) (rows (set_column df col vals) ! i) k =
      (case map_of (zip (columns df) (rows df ! i)) k of
         Some x \<Rightarrow> Some x | None \<Rightarrow> if k = col then Some (vals ! i) else None)"
    unfolding row_get_def cols rws by (rule map_of_zip_snoc [OF assms(3)])
  from assms(3) show ?thesis
  proof (cases rule: map_of_zip_cases [where k = k])
    case absent
    then show ?thesis unfolding new_row by (simp add: row_get_def)
  next
    case (present x)
    with False have "k \<noteq> col" by auto
    with present show ?thesis unfolding new_row by (simp add: row_get_def)
  qed
qed

lemma length_rows_set_column:
  "length vals = length (rows df) \<Longrightarrow> length (rows (set_column df col vals)) = length (rows df)"
  by (simp add: set_column_def)

lemma columns_set_column:
  "columns (set_column df col vals) =
     (if col \<in> set (columns df) then columns df else columns df @ [col])"
  by (simp add: set_column_def)

lemma wf_set_column:
  "wf_df df \<Longrightarrow> wf_df (set_column df col vals)"
  by (auto simp: wf_df_def set_column_def list_all_iff dest!: set_zip_leftD)

section \<open>Properties of the variance and status helpers\<close>

lemma store_copy_update: "store_set_column (st @ [st ! df]) (length st) col vals = st @ [set_column (st ! df) col vals]"
  by (simp add: store_set_column_def)

lemma calculate_variance_cases:
  assumes "calculate_variance st df col1 col2 result_col tol = (res, st')"
  obtains (raises) e where "res = Inl e" "st' = st @ [st ! df]"
  | (returns) vals where "res = Inr (length st)"
      "map_exn (variance_of_row (columns (st ! df)) col1 col2) (rows (st ! df)) = Inr vals"
      "st' = st @ [set_column (st ! df) result_col vals]"
  using assms
  by (auto simp: calculate_variance_def df_copy_def store_copy_update split: sum.splits)

lemma add_match_status_cases:
  assumes "add_match_status st df variance_col status_col tol ml vl dl = (res, st')"
  obtains (raises) e where "res = Inl e" "st' = st @ [st ! df]"
  | (returns) variances statuses where "res = Inr (length st)"
      "get_column (st ! df) variance_col = Inr variances"
      "map_exn (determine_status tol ml vl dl) variances = Inr statuses"
      "st' = st @ [set_column (st ! df) status_col statuses]"
  using assms
  by (auto simp: add_match_status_def df_copy_def store_copy_update split: sum.splits)

lemma wf_df_row: "wf_df df \<Longrightarrow> i < length (rows df) \<Longrightarrow> length (rows df ! i) = length (columns df)"
  by (simp add: wf_df_def list_all_length)








lemmas table_eval = calculate_variance_def add_match_status_def df_copy_def store_set_column_def
  set_column_def get_column_def variance_of_row_def row_get_def notna_def wf_df_def
  VARIANCE_TOLERANCE_def


lemma get_column_set_column_other:
  assumes "wf_df df" and "length vals = length (rows df)" and "k \<in> set (columns df)" and "k \<noteq> col"
  shows "get_column (set_column df col vals) k = get_column df k"
proof -
  have mem: "k \<in> set (columns (set_column df col vals))"
    using assms(3) by (simp add: columns_set_column)
  have len: "length (rows (set_column df col vals)) = length (rows df)"
    by (rule length_rows_set_column [OF assms(2)])
  have "map (\<lambda>row. case row_get (columns (set_column df col vals)) row k of Some v \<Rightarrow> v | None \<Rightarrow> CNull)
            (rows (set_column df col vals))
        = map (\<lambda>row. case row_get (columns df) row k of Some v \<Rightarrow> v | None \<Rightarrow> CNull) (rows df)"
  proof (rule nth_equalityI)
    show "length (map (\<lambda>row. case row_get (columns (set_column df col vals)) row k of Some v \<Rightarrow> v | None \<Rightarrow> CNull)
            (rows (set_column df col vals)))
        = length (map (\<lambda>row. case row_get (columns df) row k of Some v \<Rightarrow> v | None \<Rightarrow> CNull) (rows df))"
      by (simp add: len)
  next
    fix i
    assume "i < length (map (\<lambda>row. case row_get (columns (set_column df col vals)) row k of Some v \<Rightarrow> v | None \<Rightarrow> CNull)
            (rows (set_column df col vals)))"
    then have i: "i < length (rows df)" by (simp add: len)
    from row_get_set_column [OF i assms(2) wf_df_row [OF assms(1) i], of col k] assms(4)
    have "row_get (columns (set_column df col vals)) (rows (set_column df col vals) ! i) k
            = row_get (columns df) (rows df ! i) k" by simp
    with i len
    show "map (\<lambda>row. case row_get (columns (set_column df col vals)) row k of Some v \<Rightarrow> v | None \<Rightarrow> CNull)
            (rows (set_column df col vals)) ! i
        = map (\<lambda>row. case row_get (columns df) row k of Some v \<Rightarrow> v | None \<Rightarrow> CNull) (rows df) ! i"
      by simp
  qed
  with mem assms(3) show ?thesis by (simp add: get_column_def)
qed

text \<open>
  Claim C10, amended. Both helpers leave every table of the store as it was, their argument
  included, and return a new table with the same number of rows. The result column is
  appended when its name is new and written over the column of that name otherwise; every
  other column the argument had keeps its values.
\<close>

theorem helpers_leave_input_intact:
  "(calculate_variance st df col1 col2 result_col tol = (res, st') \<and> df < length st \<and> wf_df (st ! df)
    \<longrightarrow> take (length st) st' = st
      \<and> (\<forall>r. res = Inr r \<longrightarrow>
            r = length st \<and> length st' = Suc (length st)
          \<and> length (rows (st' ! r)) = length (rows (st ! df))
          \<and> columns (st' ! r) = (if result_col \<in> set (columns (st ! df)) then columns (st ! df)
                                 else columns (st ! df) @ [result_col])
          \<and> (\<forall>k\<in>set (columns (st ! df)). k \<noteq> result_col \<longrightarrow> get_column (st' ! r) k = get_column (st ! df) k)))
   \<and> (add_match_status sm dm variance_col status_col tolerance ml vl dl = (resm, sm')
        \<and> dm < length sm \<and> wf_df (sm ! dm)
    \<longrightarrow> take (length sm) sm' = sm
      \<and> (\<forall>r. resm = Inr r \<longrightarrow>
            r = length sm \<and> length sm' = Suc (length sm)
          \<and> length (rows (sm' ! r)) = length (rows (sm ! dm))
          \<and> columns (sm' ! r) = (if status_col \<in> set (columns (sm ! dm)) then columns (sm ! dm)
                                 else columns (sm ! dm) @ [status_col])
          \<and> (\<forall>k\<in>set (columns (sm ! dm)). k \<noteq> status_col \<longrightarrow> get_column (sm' ! r) k = get_column (sm ! dm) k)))"
proof (rule conjI; rule impI; elim conjE)
  assume h: "calculate_variance st df col1 col2 result_col tol = (res, st')" "wf_df (st ! df)"
  from h(1) show "take (length st) st' = st
      \<and> (\<forall>r. res = Inr r \<longrightarrow>
            r = length st \<and> length st' = Suc (length st)
          \<and> length (rows (st' ! r)) = length (rows (st ! df))
          \<and> columns (st' ! r) = (if result_col \<in> set (columns (st ! df)) then columns (st ! df)
                                 else columns (st ! df) @ [result_col])
          \<and> (\<forall>k\<in>set (columns (st ! df)). k \<noteq> result_col \<longrightarrow> get_column (st' ! r) k = get_column (st ! df) k))"
  proof (cases rule: calculate_variance_cases)
    case (raises e)
    then show ?thesis by simp
  next
    case (returns vals)
    from map_exn_Inr [OF returns(2)] have len: "length vals = length (rows (st ! df))" by simp
    from returns(1,3) len h(2) show ?thesis
      by (simp add: length_rows_set_column columns_set_column get_column_set_column_other)
  qed
next
  assume h: "add_match_status sm dm variance_col status_col tolerance ml vl dl = (resm, sm')" "wf_df (sm ! dm)"
  from h(1) show "take (length sm) sm' = sm
      \<and> (\<forall>r. resm = Inr r \<longrightarrow>
            r = length sm \<and> length sm' = Suc (length sm)
          \<and> length (rows (sm' ! r)) = length (rows (sm ! dm))
          \<and> columns (sm' ! r) = (if status_col \<in> set (columns (sm ! dm)) then columns (sm ! dm)
                                 else columns (sm ! dm) @ [status_col])
          \<and> (\<forall>k\<in>set (columns (sm ! dm)). k \<noteq> status_col \<longrightarrow> get_column (sm' ! r) k = get_column (sm ! dm) k))"
  proof (cases rule: add_match_status_cases)
    case (raises e)
    then show ?thesis by simp
  next
    case (returns variances statuses)
    from returns(2) have "length variances = length (rows (sm ! dm))"
      by (auto simp: get_column_def split: if_splits)
    with map_exn_Inr [OF returns(3)] have len: "length statuses = length (rows (sm ! dm))" by simp
    from returns(1,4) len h(2) show ?thesis
      by (simp add: length_rows_set_column columns_set_column get_column_set_column_other)
  qed
qed

text \<open>Claim C10 as stated fails when the result column names a column the table already
  has: the returned table holds the variance in that column, not the old values.\<close>

theorem helpers_result_column_counterexample:
  "calculate_variance [overwrite_example] 0 ''a'' ''b'' ''a'' 0
     = (Inr 1, [overwrite_example, \<lparr>columns = [''a'', ''b''], rows = [[CNum 2, CNum 3]]\<rparr>])
   \<and> ''a'' \<in> set (columns overwrite_example)
   \<and> get_column overwrite_example ''a'' = Inr [CNum 5]
   \<and> get_column \<lparr>columns = [''a'', ''b''], rows = [[CNum 2, CNum 3]]\<rparr> ''a'' = Inr [CNum 2]"
  by (simp add: table_eval overwrite_example_def)

theorem helpers_leave_input_intact_witness:
  "calculate_variance [recon_rows] 0 ''balance'' ''balance_web'' ''balance_variance'' 0
     = (Inr 1, [recon_rows, recon_rows_variance])
   \<and> add_match_status [recon_rows, recon_rows_variance] 1 ''balance_variance'' ''match_status''
       VARIANCE_TOLERANCE ''Match'' ''Variance'' ''Data Missing''
     = (Inr 2, [recon_rows, recon_rows_variance, recon_rows_status])
   \<and> wf_df recon_rows \<and> wf_df recon_rows_variance
   \<and> get_column recon_rows_variance ''balance_web'' = get_column recon_rows ''balance_web''
   \<and> get_column recon_rows_status ''balance_variance'' = get_column recon_rows_variance ''balance_variance''
   \<and> take 1 [recon_rows, recon_rows_variance] = [recon_rows]"
proof -
  have cv: "calculate_variance [recon_rows] 0 ''balance'' ''balance_web'' ''balance_variance'' 0
     = (Inr 1, [recon_rows, recon_rows_variance])"
    by (simp add: table_eval recon_rows_def recon_rows_variance_def)
  have ms: "add_match_status [recon_rows, recon_rows_variance] 1 ''balance_variance'' ''match_status''
       VARIANCE_TOLERANCE ''Match'' ''Variance'' ''Data Missing''
     = (Inr 2, [recon_rows, recon_rows_variance, recon_rows_status])"
    by (simp add: table_eval recon_rows_variance_def recon_rows_status_def)
  have wf: "wf_df recon_rows" "wf_df recon_rows_variance"
    by (simp_all add: table_eval recon_rows_def recon_rows_variance_def)
  have cols: "''balance_web'' \<in> set (columns recon_rows)" "''balance_variance'' \<in> set (columns recon_rows_variance)"
    by (simp_all add: recon_rows_def recon_rows_variance_def)
  from helpers_leave_input_intact
         [of "[recon_rows]" 0 "''balance''" "''balance_web''" "''balance_variance''" 0
             "Inr 1" "[recon_rows, recon_rows_variance]"
             "[recon_rows, recon_rows_variance]" 1 "''balance_variance''" "''match_status''"
             VARIANCE_TOLERANCE "''Match''" "''Variance''" "''Data Missing''" "Inr 2"
             "[recon_rows, recon_rows_variance, recon_rows_status]"]
       cv ms wf cols
  show ?thesis by simp
qed

section \<open>Properties of the HTTP retry engine\<close>

subsection \<open>Backoff\<close>

lemma backoff_value:
  "1 \<le> n \<Longrightarrow>
   fst (calculate_backoff rt n f M j s) =
     min (f ^ nat (n - 1)) M
     + (if j then min (f ^ nat (n - 1)) M * 0.1 * fst (random_random rt s) else 0)"
  by (simp add: calculate_backoff_def random_uniform_def power_int_def Let_def split: prod.splits)

lemma jitter_le:
  fixes m u :: real
  assumes "0 \<le> m" "u \<le> 1"
  shows "m * 0.1 * u \<le> m * 0.1"
proof -
  have "m * u \<le> m" using mult_left_le [of u m] assms by simp
  then show ?thesis by simp
qed

lemma jitter_nonneg:
  fixes m u :: real
  assumes "0 \<le> m" "0 \<le> u"
  shows "0 \<le> m * 0.1 * u"
  using assms by simp

lemma backoff_upper:
  fixes m u M :: real
  assumes "0 \<le> u" "u \<le> 1" "0 \<le> M" "m \<le> M"
  shows "m + m * 0.1 * u \<le> M * 1.1"
proof (cases "0 \<le> m")
  case True
  from jitter_le [OF True assms(2)] assms(4) show ?thesis by simp
next
  case False
  then have "m * u \<le> 0" using assms(1) by (simp add: mult_le_0_iff)
  with False assms(3) show ?thesis by simp
qed

lemma backoff_step:
  fixes f M u u' :: real
  assumes "0 \<le> u" "u \<le> 1" "0 \<le> u'" "11/10 \<le> f" "f ^ Suc k \<le> M"
  shows "min (f ^ k) M + (if j then min (f ^ k) M * 0.1 * u else 0)
           \<le> min (f ^ Suc k) M + (if j' then min (f ^ Suc k) M * 0.1 * u' else 0)"
proof -
  define x where "x = f ^ k"
  define y where "y = f ^ Suc k"
  define p where "p = x * u"
  define q where "q = y * u'"
  have f0: "0 < f" using assms(4) by simp
  have x0: "0 < x" unfolding x_def using f0 by simp
  have y: "y = f * x" unfolding x_def y_def by simp
  have xy: "(11/10) * x \<le> y" unfolding y using assms(4) x0 by (intro mult_right_mono) auto
  have y0: "0 < y" using xy x0 by linarith
  have p0: "0 \<le> p" unfolding p_def using x0 assms(1) by simp
  have p1: "p \<le> x" unfolding p_def using mult_left_le [of u x] x0 assms(2) by simp
  have q0: "0 \<le> q" unfolding q_def using y0 assms(3) by simp
  have a: "min (f ^ k) M = x" using xy x0 assms(5) unfolding x_def [symmetric] y_def [symmetric] by linarith
  have b: "min (f ^ Suc k) M = y" using assms(5) unfolding y_def [symmetric] by linarith
  have goal: "x + (if j then (1/10) * p else 0) \<le> y + (if j' then (1/10) * q else 0)"
    using xy p0 p1 q0 x0 by (cases j; cases j'; simp)
  have "x * 0.1 * u = (1/10) * p" "y * 0.1 * u' = (1/10) * q" unfolding p_def q_def by simp_all
  with goal show ?thesis unfolding a b by (cases j; cases j'; simp)
qed

lemma backoff_base_mono:
  assumes "(1::real) \<le> f"
  shows "min (f ^ n) M \<le> min (f ^ Suc n) M"
proof -
  have "f ^ n \<le> f ^ Suc n" using assms by (simp add: power_increasing)
  then show ?thesis by (simp add: min_def)
qed

text \<open>
  Claim C6, amended. For every attempt number of at least 1 and every random draw between 0
  and 1, the wait is \<open>min(factor^(attempt-1), cap)\<close> plus, with jitter, the draw times a
  tenth of that value. Without jitter the wait does not decrease from one attempt to the
  next when the factor is at least 1. With jitter it does not decrease, whatever the two
  draws are, when the factor is at least 1.1 and the next attempt is still not capped. When
  the cap is not negative no wait exceeds 1.1 times the cap.
\<close>

theorem backoff_formula_and_bounds:
  "1 \<le> n \<and> (\<forall>t. 0 \<le> fst (random_random rt t) \<and> fst (random_random rt t) \<le> 1) \<longrightarrow>
     fst (calculate_backoff rt n f M j s) =
       min (f ^ nat (n - 1)) M
       + (if j then min (f ^ nat (n - 1)) M * 0.1 * fst (random_random rt s) else 0)
   \<and> (1 \<le> f \<longrightarrow> fst (calculate_backoff rt n f M False s) \<le> fst (calculate_backoff rt (n + 1) f M False s'))
   \<and> (1.1 \<le> f \<and> f ^ nat n \<le> M \<longrightarrow>
        fst (calculate_backoff rt n f M j s) \<le> fst (calculate_backoff rt (n + 1) f M j' s'))
   \<and> (0 \<le> M \<longrightarrow> fst (calculate_backoff rt n f M j s) \<le> M * 1.1)"
proof (intro impI, elim conjE)
  assume n: "1 \<le> n" and draw: "\<forall>t. 0 \<le> fst (random_random rt t) \<and> fst (random_random rt t) \<le> 1"
  have n1: "1 \<le> n + 1" using n by simp
  have nat1: "nat (n + 1 - 1) = Suc (nat (n - 1))" using n by simp
  have natn: "nat n = Suc (nat (n - 1))" using n by simp
  have u: "0 \<le> fst (random_random rt s)" "fst (random_random rt s) \<le> 1"
    "0 \<le> fst (random_random rt s')" using draw by auto
  have mono: "1 \<le> f \<Longrightarrow> fst (calculate_backoff rt n f M False s) \<le> fst (calculate_backoff rt (n + 1) f M False s')"
    unfolding backoff_value [OF n] backoff_value [OF n1] nat1
    using backoff_base_mono [of f "nat (n - 1)" M] by simp
  have step: "fst (calculate_backoff rt n f M j s) \<le> fst (calculate_backoff rt (n + 1) f M j' s')"
    if "1.1 \<le> f" "f ^ nat n \<le> M"
  proof -
    have f: "11/10 \<le> f" using that(1) by simp
    have p: "f ^ Suc (nat (n - 1)) \<le> M" using that(2) natn by simp
    show ?thesis
      unfolding backoff_value [OF n] backoff_value [OF n1] nat1
      by (rule backoff_step [OF u(1) u(2) u(3) f p])
  qed
  have upper: "0 \<le> M \<Longrightarrow> fst (calculate_backoff rt n f M j s) \<le> M * 1.1"
  proof -
    assume M: "0 \<le> M"
    have m: "min (f ^ nat (n - 1)) M \<le> M" by simp
    from backoff_upper [OF u(1,2) M m] backoff_upper [OF _ _ M m, of 0]
    show ?thesis unfolding backoff_value [OF n] by (cases j) simp_all
  qed
  show "fst (calculate_backoff rt n f M j s) =
       min (f ^ nat (n - 1)) M
       + (if j then min (f ^ nat (n - 1)) M * 0.1 * fst (random_random rt s) else 0)
   \<and> (1 \<le> f \<longrightarrow> fst (calculate_backoff rt n f M False s) \<le> fst (calculate_backoff rt (n + 1) f M False s'))
   \<and> (1.1 \<le> f \<and> f ^ nat n \<le> M \<longrightarrow>
        fst (calculate_backoff rt n f M j s) \<le> fst (calculate_backoff rt (n + 1) f M j' s'))
   \<and> (0 \<le> M \<longrightarrow> fst (calculate_backoff rt n f M j s) \<le> M * 1.1)"
  proof (intro conjI impI)
    show "fst (calculate_backoff rt n f M j s) =
       min (f ^ nat (n - 1)) M
       + (if j then min (f ^ nat (n - 1)) M * 0.1 * fst (random_random rt s) else 0)"
      by (rule backoff_value [OF n])
    show "fst (calculate_backoff rt n f M False s) \<le> fst (calculate_backoff rt (n + 1) f M False s')"
      if "1 \<le> f" using that by (rule mono)
    show "fst (calculate_backoff rt n f M j s) \<le> fst (calculate_backoff rt (n + 1) f M j' s')"
      if "1.1 \<le> f \<and> f ^ nat n \<le> M" using that step by blast
    show "fst (calculate_backoff rt n f M j s) \<le> M * 1.1"
      if "0 \<le> M" using that by (rule upper)
  qed
qed

text \<open>Claim C6 as stated fails: with the defaults the capped wait of attempt 6 under the
  draw 1 is above the wait of attempt 7 under the draw 0, and with the factor 1.05 the same
  happens between attempts 1 and 2, far below the cap.\<close>

theorem backoff_not_monotone_counterexample:
  "fst (calculate_backoff draw_runtime 6 2 32 True 1) = 35.2
   \<and> fst (calculate_backoff draw_runtime 7 2 32 True 0) = 32
   \<and> fst (calculate_backoff draw_runtime 7 2 32 True 0) < fst (calculate_backoff draw_runtime 6 2 32 True 1)
   \<and> fst (calculate_backoff draw_runtime 1 1.05 32 True 1) = 1.1
   \<and> fst (calculate_backoff draw_runtime 2 1.05 32 True 0) = 1.05
   \<and> fst (calculate_backoff draw_runtime 2 1.05 32 True 0) < fst (calculate_backoff draw_runtime 1 1.05 32 True 1)"
  by (simp add: calculate_backoff_def random_uniform_def draw_runtime_def power_int_def)

theorem backoff_formula_and_bounds_witness:
  "(1::int) \<le> 3
   \<and> (\<forall>t. 0 \<le> fst (random_random quiet_runtime t) \<and> fst (random_random quiet_runtime t) \<le> 1)
   \<and> fst (calculate_backoff quiet_runtime 3 2 32 True 0) = 4.2
   \<and> fst (calculate_backoff quiet_runtime 3 2 32 True 0) \<le> fst (calculate_backoff quiet_runtime 4 2 32 True 0)
   \<and> fst (calculate_backoff quiet_runtime 3 2 32 True 0) \<le> 32 * 1.1"
proof -
  have draw: "\<forall>t. 0 \<le> fst (random_random quiet_runtime t) \<and> fst (random_random quiet_runtime t) \<le> 1"
    by (simp add: quiet_runtime_def)
  from backoff_formula_and_bounds [of 3 quiet_runtime 2 32 True 0 0 True] draw
  show ?thesis by (simp add: quiet_runtime_def)
qed

subsection \<open>Exhaustion and immediate failure\<close>

lemma retryable_continue: "retryable e \<Longrightarrow> a \<le> mr \<Longrightarrow> api_except mr a e = Inr ()"
  by (cases e) (auto simp: Let_def)

lemma retryable_exhausted: "retryable e \<Longrightarrow> mr < a \<Longrightarrow> \<exists>t. api_except mr a e = Inl t"
  by (cases e) (auto simp: Let_def)

lemma api_except_500:
  "mr < a \<Longrightarrow> api_except mr a (HTTPStatusError m 500 t) =
     Inl (MaxRetriesExceededError (''Server error (500) persisted after '' @ str_of_int mr @ '' retries'')
            a (Some (HTTPStatusError m 500 t)) (Some 500) (Some (HTTPStatusError m 500 t)))"
  by (simp add: Let_def)

lemma api_retry_loop_exhaust:
  assumes fails: "\<forall>s. \<exists>e s1. func s = (Inl e, s1) \<and> P e"
    and P: "\<And>e. P e \<Longrightarrow> retryable e"
  shows "nat (max_retries cfg - attempt) = k \<Longrightarrow> attempt \<le> max_retries cfg \<Longrightarrow>
         \<exists>t s' es ws.
           api_retry_loop rt cfg name func attempt le s tr =
             (Inl t, s', \<lparr>calls = calls tr + k + 1, raised = raised tr @ es, sleeps = sleeps tr @ ws\<rparr>)
         \<and> length es = k + 1 \<and> length ws = k \<and> list_all P es
         \<and> api_except (max_retries cfg) (max_retries cfg + 1) (last es) = Inl t"
proof (induction k arbitrary: attempt le s tr)
  case 0
  then have att: "attempt = max_retries cfg" by simp
  from fails obtain e s1 where f: "func s = (Inl e, s1)" and r: "P e" by blast
  from retryable_exhausted [OF P [OF r], of "max_retries cfg" "max_retries cfg + 1"]
  obtain t where t: "api_except (max_retries cfg) (max_retries cfg + 1) e = Inl t" by auto
  have "api_retry_loop rt cfg name func attempt le s tr =
          (Inl t, s1, \<lparr>calls = calls tr + 0 + 1, raised = raised tr @ [e], sleeps = sleeps tr @ []\<rparr>)"
    by (subst api_retry_loop.simps) (simp add: att f t)
  with r t show ?case by (intro exI [of _ t] exI [of _ s1] exI [of _ "[e]"] exI [of _ "[]"]) simp
next
  case (Suc k)
  then have lt: "attempt + 1 \<le> max_retries cfg" and k: "nat (max_retries cfg - (attempt + 1)) = k" by auto
  from fails obtain e s1 where f: "func s = (Inl e, s1)" and r: "P e" by blast
  obtain w s2 where b: "calculate_backoff rt (attempt + 1) (backoff_factor cfg) (max_backoff cfg) (jitter cfg) s1 = (w, s2)"
    by (cases "calculate_backoff rt (attempt + 1) (backoff_factor cfg) (max_backoff cfg) (jitter cfg) s1")
  have unfold: "api_retry_loop rt cfg name func attempt le s tr =
          api_retry_loop rt cfg name func (attempt + 1) (Some e) (time_sleep rt w s2)
            (tr\<lparr>calls := calls tr + 1, raised := raised tr @ [e], sleeps := sleeps tr @ [w]\<rparr>)"
    using Suc.prems(2) by (subst api_retry_loop.simps) (simp add: f retryable_continue [OF P [OF r] lt] b)
  from Suc.IH [OF k lt, of "Some e" "time_sleep rt w s2"
                 "tr\<lparr>calls := calls tr + 1, raised := raised tr @ [e], sleeps := sleeps tr @ [w]\<rparr>"]
  obtain t s' es ws where
    res: "api_retry_loop rt cfg name func (attempt + 1) (Some e) (time_sleep rt w s2)
            (tr\<lparr>calls := calls tr + 1, raised := raised tr @ [e], sleeps := sleeps tr @ [w]\<rparr>)
          = (Inl t, s', \<lparr>calls = calls tr + 1 + k + 1, raised = (raised tr @ [e]) @ es,
                          sleeps = (sleeps tr @ [w]) @ ws\<rparr>)"
    and len: "length es = k + 1" "length ws = k" and all: "list_all P es"
    and t: "api_except (max_retries cfg) (max_retries cfg + 1) (last es) = Inl t"
    by auto
  from len have ne: "es \<noteq> []" by auto
  have whole: "api_retry_loop rt cfg name func attempt le s tr =
      (Inl t, s', \<lparr>calls = calls tr + Suc k + 1, raised = raised tr @ (e # es),
                     sleeps = sleeps tr @ (w # ws)\<rparr>)"
    unfolding unfold res by simp
  show ?case
    by (intro exI [of _ t] exI [of _ s'] exI [of _ "e # es"] exI [of _ "w # ws"])
       (simp add: whole len all r t ne)
qed

lemma with_api_retry_exhaust:
  assumes "\<forall>s. \<exists>e s1. func s = (Inl e, s1) \<and> P e" and "\<And>e. P e \<Longrightarrow> retryable e"
    and "0 \<le> max_retries cfg"
  shows "\<exists>t s' tr. with_api_retry_traced rt cfg name func s = (Inl t, s', tr)
           \<and> calls tr = nat (max_retries cfg) + 1 \<and> length (raised tr) = nat (max_retries cfg) + 1
           \<and> length (sleeps tr) = nat (max_retries cfg) \<and> list_all P (raised tr)
           \<and> api_except (max_retries cfg) (max_retries cfg + 1) (last (raised tr)) = Inl t"
proof -
  from api_retry_loop_exhaust [of func P cfg 0 "nat (max_retries cfg)" rt name None s
         "\<lparr>calls = 0, raised = [], sleeps = []\<rparr>", OF assms(1,2)] assms(3)
  show ?thesis unfolding with_api_retry_traced_def by auto
qed

text \<open>
  Claim C4. When \<open>max_retries\<close> is not negative and every invocation of the wrapped
  operation raises an HTTP 500 error, the wrapper sleeps \<open>max_retries\<close> times, invokes the
  operation \<open>max_retries + 1\<close> times and raises \<open>MaxRetriesExceededError\<close> whose
  \<open>attempts\<close> is \<open>max_retries + 1\<close> and whose \<open>last_error\<close> and cause are the error
  of the last invocation.
\<close>

theorem server_error_exhausts_retries:
  "0 \<le> max_retries cfg \<and> (\<forall>s. \<exists>m t s1. func s = (Inl (HTTPStatusError m 500 t), s1)) \<longrightarrow>
     (\<exists>msg e s' tr.
        with_api_retry_traced rt cfg name func s =
          (Inl (MaxRetriesExceededError msg (max_retries cfg + 1) (Some e) (Some 500) (Some e)), s', tr)
      \<and> length (sleeps tr) = nat (max_retries cfg)
      \<and> calls tr = nat (max_retries cfg) + 1
      \<and> length (raised tr) = calls tr
      \<and> e = last (raised tr)
      \<and> (\<exists>m t. e = HTTPStatusError m 500 t))"
proof (intro impI, elim conjE)
  assume mr: "0 \<le> max_retries cfg" and f: "\<forall>s. \<exists>m t s1. func s = (Inl (HTTPStatusError m 500 t), s1)"
  have fails: "\<forall>s. \<exists>e s1. func s = (Inl e, s1) \<and> (\<exists>m t. e = HTTPStatusError m 500 t)"
    using f by metis
  have ret: "\<And>e. \<exists>m t. e = HTTPStatusError m 500 t \<Longrightarrow> retryable e" by auto
  from with_api_retry_exhaust [of func "\<lambda>e. \<exists>m t. e = HTTPStatusError m 500 t" cfg rt name s, OF fails ret mr]
  obtain t s' tr where
    res: "with_api_retry_traced rt cfg name func s = (Inl t, s', tr)"
    and c: "calls tr = nat (max_retries cfg) + 1" "length (raised tr) = nat (max_retries cfg) + 1"
       "length (sleeps tr) = nat (max_retries cfg)"
    and all: "list_all (\<lambda>e. \<exists>m t. e = HTTPStatusError m 500 t) (raised tr)"
    and t: "api_except (max_retries cfg) (max_retries cfg + 1) (last (raised tr)) = Inl t"
    by blast
  from c(2) have ne: "raised tr \<noteq> []" by auto
  have "last (raised tr) \<in> set (raised tr)" using ne by (rule last_in_set)
  with all have "\<exists>m b. last (raised tr) = HTTPStatusError m 500 b"
    unfolding list_all_iff by blast
  then obtain m b where last: "last (raised tr) = HTTPStatusError m 500 b" by blast
  from t have t': "t = MaxRetriesExceededError
       (''Server error (500) persisted after '' @ str_of_int (max_retries cfg) @ '' retries'')
       (max_retries cfg + 1) (Some (last (raised tr))) (Some 500) (Some (last (raised tr)))"
    unfolding last by (simp add: Let_def)
  show "\<exists>msg e s' tr.
        with_api_retry_traced rt cfg name func s =
          (Inl (MaxRetriesExceededError msg (max_retries cfg + 1) (Some e) (Some 500) (Some e)), s', tr)
      \<and> length (sleeps tr) = nat (max_retries cfg)
      \<and> calls tr = nat (max_retries cfg) + 1
      \<and> length (raised tr) = calls tr
      \<and> e = last (raised tr)
      \<and> (\<exists>m t. e = HTTPStatusError m 500 t)"
    by (rule exI [of _ "''Server error (500) persisted after '' @ str_of_int (max_retries cfg) @ '' retries''"],
        rule exI [of _ "last (raised tr)"], rule exI [of _ s'], rule exI [of _ tr])
       (simp add: res [unfolded t'] c last)
qed

lemmas retry_eval = with_api_retry_traced_def api_retry_loop.simps calculate_backoff_def
  random_uniform_def quiet_runtime_def failing_status_def default_retry_config_def
  str_of_int_def digit_char_def power_int_def Let_def

lemmas session_eval = with_session_retry_traced_def is_session_error_def SESSION_ERROR_KEYWORDS_def
  lower_def lower_char_def failing_timeout_def bare_page_def quiet_runtime_def upto_rec1

theorem server_error_exhausts_retries_witness:
  "0 \<le> max_retries default_retry_config
   \<and> (\<forall>s. \<exists>m t s1. failing_status 500 s = (Inl (HTTPStatusError m 500 t), s1))
   \<and> with_api_retry_traced quiet_runtime default_retry_config ''accounts'' (failing_status 500) 0 =
       (Inl (MaxRetriesExceededError ''Server error (500) persisted after 3 retries'' 4
               (Some (HTTPStatusError ''error in call 3'' 500 ''body'')) (Some 500)
               (Some (HTTPStatusError ''error in call 3'' 500 ''body''))),
        4,
        \<lparr>calls = 4,
         raised = [HTTPStatusError ''error in call 0'' 500 ''body'',
                   HTTPStatusError ''error in call 1'' 500 ''body'',
                   HTTPStatusError ''error in call 2'' 500 ''body'',
                   HTTPStatusError ''error in call 3'' 500 ''body''],
         sleeps = [1.05, 2.1, 4.2]\<rparr>)"
proof -
  have h1: "0 \<le> max_retries default_retry_config" by (simp add: default_retry_config_def)
  have h2: "\<forall>s. \<exists>m t s1. failing_status 500 s = (Inl (HTTPStatusError m 500 t), s1)"
    by (simp add: failing_status_def)
  from server_error_exhausts_retries
         [of default_retry_config "failing_status 500" quiet_runtime "''accounts''" 0] h1 h2
  show ?thesis by (simp add: retry_eval)
qed

text \<open>
  Claim C3, amended. For a first invocation that raises an HTTP error with status 400, 401,
  403 or 501 the wrapper invokes the operation once, does not sleep, and raises
  \<open>APIAuthenticationError\<close> for 401 and the generic \<open>APIError\<close> for 400, 403 and 501,
  with the status code and the original error as the cause.
\<close>

theorem client_errors_not_retried:
  "0 \<le> max_retries cfg \<and> func s = (Inl (HTTPStatusError m c t), s1) \<and> c \<in> {400, 401, 403, 501} \<longrightarrow>
     (\<exists>msg. with_api_retry_traced rt cfg name func s =
        (Inl ((if c = 401 then APIAuthenticationError else APIError) msg (Some c) (Some (take 500 t))
                (Some (HTTPStatusError m c t))),
         s1, \<lparr>calls = 1, raised = [HTTPStatusError m c t], sleeps = []\<rparr>))"
  unfolding with_api_retry_traced_def
  by (subst api_retry_loop.simps) (auto simp: Let_def)

text \<open>Claim C3 as stated fails for 403: the wrapper has no branch for it, so the last
  branch raises the generic \<open>APIError\<close>.\<close>

theorem forbidden_is_generic_error_counterexample:
  "with_api_retry_traced quiet_runtime default_retry_config ''accounts'' (failing_status 403) 0 =
     (Inl (APIError ''HTTP error 403: error in call 0'' (Some 403) (Some ''body'')
             (Some (HTTPStatusError ''error in call 0'' 403 ''body''))),
      1, \<lparr>calls = 1, raised = [HTTPStatusError ''error in call 0'' 403 ''body''], sleeps = []\<rparr>)"
  by (simp add: retry_eval)

theorem client_errors_not_retried_witness:
  "0 \<le> max_retries default_retry_config
   \<and> failing_status 401 0 = (Inl (HTTPStatusError ''error in call 0'' 401 ''body''), 1)
   \<and> with_api_retry_traced quiet_runtime default_retry_config ''accounts'' (failing_status 401) 0 =
       (Inl (APIAuthenticationError ''Authentication failed (401): error in call 0'' (Some 401)
               (Some ''body'') (Some (HTTPStatusError ''error in call 0'' 401 ''body''))),
        1, \<lparr>calls = 1, raised = [HTTPStatusError ''error in call 0'' 401 ''body''], sleeps = []\<rparr>)"
proof -
  have h1: "0 \<le> max_retries default_retry_config" by (simp add: default_retry_config_def)
  have h2: "failing_status 401 0 = (Inl (HTTPStatusError ''error in call 0'' 401 ''body''), 1)"
    by (simp add: failing_status_def digit_char_def)
  from client_errors_not_retried
         [of default_retry_config "failing_status 401" 0 "''error in call 0''" 401 "''body''" 1
             quiet_runtime "''accounts''"] h1 h2
  show ?thesis by (simp add: retry_eval)
qed

subsection \<open>Number of invocations\<close>

lemma session_retry_loop_calls:
  assumes fails: "\<forall>s. \<exists>e s1. func s = (Inl e, s1) \<and> is_session_error (lower (str_exn e))"
  shows "nat (mr - lo + 1) = k \<Longrightarrow>
         \<exists>t s' tr'. session_retry_loop rt mr name self func [lo..mr] le s tr = (Inl t, s', tr')
                   \<and> calls tr' = calls tr + k"
proof (induction k arbitrary: lo le s tr)
  case 0
  then have "[lo..mr] = []" by simp
  then show ?case by (cases le) simp_all
next
  case (Suc k)
  then have le: "lo \<le> mr" and k: "nat (mr - (lo + 1) + 1) = k" by auto
  have up: "[lo..mr] = lo # [lo + 1..mr]" using le by (rule upto_rec1)
  from fails obtain e s1 where f: "func s = (Inl e, s1)"
    and se: "is_session_error (lower (str_exn e))" by blast
  obtain r s2 where rs: "(case login_page self of Some lp \<Rightarrow> try_reauth name self lp s1
                          | None \<Rightarrow> (Inr False, s1)) = (r, s2)"
    by (cases "case login_page self of Some lp \<Rightarrow> try_reauth name self lp s1
                          | None \<Rightarrow> (Inr False, s1)")
  note IH = Suc.IH [OF k, of "Some e" "time_sleep rt (min (2 ^ nat lo) 8) s2"
      "tr\<lparr>calls := calls tr + 1, raised := raised tr @ [e],
           sleeps := sleeps tr @ [min (2 ^ nat lo) 8]\<rparr>"]
  have last: "k = 0" if "\<not> lo < mr" using that le k by simp
  show ?case
  proof (cases r)
    case (Inl auth_error)
    show ?thesis
    proof (cases "lo < mr")
      case True
      with IH show ?thesis unfolding up by (simp add: f se rs Inl)
    next
      case False
      with le last show ?thesis unfolding up by (simp add: f se rs Inl)
    qed
  next
    case (Inr logged_in_again)
    show ?thesis
    proof (cases logged_in_again)
      case True
      with IH show ?thesis unfolding up by (simp add: f se rs Inr)
    next
      case nf: False
      show ?thesis
      proof (cases "lo < mr")
        case True
        with IH show ?thesis unfolding up by (simp add: f se rs Inr nf)
      next
        case False
        with le last show ?thesis unfolding up by (simp add: f se rs Inr nf)
      qed
    qed
  qed
qed

text \<open>
  Claim C5. With \<open>max_retries = N\<close> and an operation that fails on every invocation, the
  HTTP wrapper invokes it \<open>N + 1\<close> times when the errors are retryable, and the session
  wrapper invokes it \<open>N\<close> times when the errors are session errors, whatever the login
  page does: its loop runs over \<open>range(1, N + 1)\<close>, the first try included.
\<close>

theorem retry_invocation_counts:
  "(0 \<le> max_retries cfg \<and> (\<forall>s. \<exists>e s1. func s = (Inl e, s1) \<and> retryable e) \<longrightarrow>
      (\<exists>t s' tr. with_api_retry_traced rt cfg name func s = (Inl t, s', tr)
                \<and> calls tr = nat (max_retries cfg) + 1))
   \<and> ((\<forall>s. \<exists>e s1. sfunc s = (Inl e, s1) \<and> is_session_error (lower (str_exn e))) \<longrightarrow>
      (\<exists>t s' tr. with_session_retry_traced srt n sname self sfunc ss = (Inl t, s', tr)
                \<and> calls tr = nat n))"
proof (rule conjI; rule impI)
  assume "0 \<le> max_retries cfg \<and> (\<forall>s. \<exists>e s1. func s = (Inl e, s1) \<and> retryable e)"
  then have mr: "0 \<le> max_retries cfg" and f: "\<forall>s. \<exists>e s1. func s = (Inl e, s1) \<and> retryable e"
    by blast+
  from with_api_retry_exhaust [of func retryable cfg rt name s, OF f _ mr]
  show "\<exists>t s' tr. with_api_retry_traced rt cfg name func s = (Inl t, s', tr)
                \<and> calls tr = nat (max_retries cfg) + 1"
    by blast
next
  assume f: "\<forall>s. \<exists>e s1. sfunc s = (Inl e, s1) \<and> is_session_error (lower (str_exn e))"
  from session_retry_loop_calls [OF f, of n 1 "nat n" srt sname self None ss
         "\<lparr>calls = 0, raised = [], sleeps = []\<rparr>"]
  show "\<exists>t s' tr. with_session_retry_traced srt n sname self sfunc ss = (Inl t, s', tr)
                \<and> calls tr = nat n"
    unfolding with_session_retry_traced_def by simp
qed

theorem retry_invocation_counts_witness:
  "0 \<le> max_retries default_retry_config
   \<and> (\<forall>s. \<exists>e s1. failing_status 500 s = (Inl e, s1) \<and> retryable e)
   \<and> (\<forall>s. \<exists>e s1. failing_timeout s = (Inl e, s1) \<and> is_session_error (lower (str_exn e)))
   \<and> calls (snd (snd (with_api_retry_traced quiet_runtime default_retry_config ''accounts''
                        (failing_status 500) 0))) = 4
   \<and> with_session_retry_traced quiet_runtime DEFAULT_MAX_RETRIES ''get_account_summary'' bare_page
        failing_timeout 0 =
       (Inl (PyError ''TimeoutError'' ''Timeout 30000ms exceeded''), 2,
        \<lparr>calls = 2,
         raised = [PyError ''TimeoutError'' ''Timeout 30000ms exceeded'',
                   PyError ''TimeoutError'' ''Timeout 30000ms exceeded''],
         sleeps = [2]\<rparr>)"
proof -
  have h1: "0 \<le> max_retries default_retry_config" by (simp add: default_retry_config_def)
  have h2: "\<forall>s. \<exists>e s1. failing_status 500 s = (Inl e, s1) \<and> retryable e"
    by (simp add: failing_status_def)
  have h3: "\<forall>s. \<exists>e s1. failing_timeout s = (Inl e, s1) \<and> is_session_error (lower (str_exn e))"
    by (simp add: session_eval)
  have h4: "with_session_retry_traced quiet_runtime DEFAULT_MAX_RETRIES ''get_account_summary'' bare_page
        failing_timeout 0 =
       (Inl (PyError ''TimeoutError'' ''Timeout 30000ms exceeded''), 2,
        \<lparr>calls = 2,
         raised = [PyError ''TimeoutError'' ''Timeout 30000ms exceeded'',
                   PyError ''TimeoutError'' ''Timeout 30000ms exceeded''],
         sleeps = [2]\<rparr>)"
    by (simp add: session_eval DEFAULT_MAX_RETRIES_def)
  from retry_invocation_counts
         [of default_retry_config "failing_status 500" quiet_runtime "''accounts''" 0
             failing_timeout quiet_runtime DEFAULT_MAX_RETRIES "''get_account_summary''" bare_page 0]
       h1 h2 h3 h4
  show ?thesis by (auto simp: default_retry_config_def DEFAULT_MAX_RETRIES_def)
qed

section \<open>Properties of the API client\<close>

subsection \<open>Unwrapping\<close>

lemma py_len_array: "py_len (JArr items) = Inr (length items)"
  by simp

text \<open>
  Claim C9. For a reply that is a dict, the value chosen is the one under the first of
  \<open>transactions\<close>, \<open>lastTenTransactions\<close>, \<open>Transactions\<close> that is truthy, and the
  empty list when none is; the call returns it whenever it has a length, so always when each
  of the three fields is absent, null or an array. A reply that is an array is returned as
  it is. The method \<open>transactions\<close> returns what the unwrapping gives for the decoded reply.
\<close>

theorem unwrap_transactions_priority:
  "(let chosen = (case find (\<lambda>k. truthy (dict_get response k JNull))
                         [''transactions'', ''lastTenTransactions'', ''Transactions''] of
                    Some k \<Rightarrow> dict_get response k JNull
                  | None \<Rightarrow> JArr [])
    in unwrap_transactions (JObj response) = (case py_len chosen of Inl e \<Rightarrow> Inl e | Inr n \<Rightarrow> Inr chosen)
     \<and> ((\<forall>k\<in>set [''transactions'', ''lastTenTransactions'', ''Transactions''].
            dict_get response k JNull = JNull \<or> (\<exists>items. dict_get response k JNull = JArr items))
         \<longrightarrow> unwrap_transactions (JObj response) = Inr chosen))
   \<and> unwrap_transactions (JArr items) = Inr (JArr items)
   \<and> (ensure_valid_token env api = (Inr (), api1)
        \<and> request_json env (transactions_request api1 account_id start_arg end_arg) api1 = (Inr reply, api2)
      \<longrightarrow> transactions_body env account_id start_arg end_arg api = (unwrap_transactions reply, api2))"
proof (intro conjI)
  define chosen where "chosen = (case find (\<lambda>k. truthy (dict_get response k JNull))
                         [''transactions'', ''lastTenTransactions'', ''Transactions''] of
                    Some k \<Rightarrow> dict_get response k JNull
                  | None \<Rightarrow> JArr [])"
  have chain: "chosen = py_or (dict_get response ''transactions'' JNull)
              (py_or (dict_get response ''lastTenTransactions'' JNull)
                 (py_or (dict_get response ''Transactions'' JNull) (JArr [])))"
    unfolding chosen_def by (simp add: py_or_def)
  have unwrap: "unwrap_transactions (JObj response) = (case py_len chosen of Inl e \<Rightarrow> Inl e | Inr n \<Rightarrow> Inr chosen)"
    unfolding chain by (simp add: Let_def)
  have arrays: "unwrap_transactions (JObj response) = Inr chosen"
    if h: "\<forall>k\<in>set [''transactions'', ''lastTenTransactions'', ''Transactions''].
            dict_get response k JNull = JNull \<or> (\<exists>items. dict_get response k JNull = JArr items)"
  proof -
    have "\<exists>items. chosen = JArr items"
      unfolding chain py_or_def using h by auto
    then obtain items where "chosen = JArr items" by blast
    then show ?thesis unfolding unwrap by simp
  qed
  show "let chosen = (case find (\<lambda>k. truthy (dict_get response k JNull))
                         [''transactions'', ''lastTenTransactions'', ''Transactions''] of
                    Some k \<Rightarrow> dict_get response k JNull
                  | None \<Rightarrow> JArr [])
    in unwrap_transactions (JObj response) = (case py_len chosen of Inl e \<Rightarrow> Inl e | Inr n \<Rightarrow> Inr chosen)
     \<and> ((\<forall>k\<in>set [''transactions'', ''lastTenTransactions'', ''Transactions''].
            dict_get response k JNull = JNull \<or> (\<exists>items. dict_get response k JNull = JArr items))
         \<longrightarrow> unwrap_transactions (JObj response) = Inr chosen)"
    unfolding Let_def chosen_def [symmetric] using unwrap arrays by blast
  show "unwrap_transactions (JArr items) = Inr (JArr items)" by simp
  show "ensure_valid_token env api = (Inr (), api1)
        \<and> request_json env (transactions_request api1 account_id start_arg end_arg) api1 = (Inr reply, api2)
      \<longrightarrow> transactions_body env account_id start_arg end_arg api = (unwrap_transactions reply, api2)"
    by (simp add: transactions_body_def)
qed

theorem unwrap_transactions_priority_witness:
  "list_all (\<lambda>k. dict_get recent_reply k JNull = JNull \<or> (\<exists>items. dict_get recent_reply k JNull = JArr items))
      [''transactions'', ''lastTenTransactions'', ''Transactions'']
   \<and> unwrap_transactions (JObj recent_reply) = Inr (JArr [JObj [(''id'', JNum 1)]])
   \<and> unwrap_transactions (JObj [(''other'', JNum 1)]) = Inr (JArr [])"
proof -
  have h: "\<forall>k\<in>set [''transactions'', ''lastTenTransactions'', ''Transactions''].
      dict_get recent_reply k JNull = JNull \<or> (\<exists>items. dict_get recent_reply k JNull = JArr items)"
    by (simp add: recent_reply_def dict_get_def)
  from unwrap_transactions_priority [of recent_reply] h
  have a: "unwrap_transactions (JObj recent_reply) = Inr (JArr [JObj [(''id'', JNum 1)]])"
    by (simp add: recent_reply_def dict_get_def Let_def py_or_def)
  from unwrap_transactions_priority [of "[(''other'', JNum 1)]"]
  have b: "unwrap_transactions (JObj [(''other'', JNum 1)]) = Inr (JArr [])"
    by (simp add: dict_get_def Let_def py_or_def)
  from h have "list_all (\<lambda>k. dict_get recent_reply k JNull = JNull \<or> (\<exists>items. dict_get recent_reply k JNull = JArr items))
      [''transactions'', ''lastTenTransactions'', ''Transactions'']"
    unfolding list_all_iff .
  with a b show ?thesis by blast
qed

subsection \<open>Token check and request log\<close>

lemma token_usable_iff:
  "(\<not> is_token_expired env api) =
     (\<exists>t. api_tok api = Some t \<and> time_time env (world api) \<le> tok_exp t - TOKEN_REFRESH_BUFFER)"
  by (auto simp: is_token_expired_def Let_def split: option.splits)

lemma sent_client_send: "sent (snd (client_send env req api)) = sent api @ [req]"
  by (simp add: client_send_def split: prod.splits)

lemma sent_request_json: "sent (snd (request_json env req api)) = sent api @ [req]"
  using sent_client_send [of env req api]
  by (auto simp: request_json_def split: prod.splits sum.splits option.splits)

lemma sent_authenticate_try: "sent (snd (authenticate_try env api)) = sent api @ [login_request api]"
  using sent_request_json [of env "login_request api" api]
  by (auto simp: authenticate_try_def Let_def split: prod.splits sum.splits json.splits)

lemma sent_authenticate_body: "sent (snd (authenticate_body env api)) = sent api @ [login_request api]"
  using sent_authenticate_try [of env api]
  by (auto simp: authenticate_body_def split: prod.splits sum.splits exn.splits)

lemma sent_time_sleep: "sent (time_sleep (api_runtime env) d api) = sent api"
  by (simp add: api_runtime_def)

lemma sent_random: "sent (snd (random_random (api_runtime env) api)) = sent api"
  by (simp add: api_runtime_def split: prod.splits)

lemma sent_calculate_backoff: "sent (snd (calculate_backoff (api_runtime env) a f m j api)) = sent api"
  using sent_random [of env api]
  by (auto simp: calculate_backoff_def random_uniform_def Let_def split: prod.splits)

lemma api_retry_loop_sent:
  assumes mono: "\<And>s. prefix (sent s) (sent (snd (func s)))"
    and rt: "rt = api_runtime env"
  shows "prefix (sent s) (sent (fst (snd (api_retry_loop rt cfg name func attempt le s tr))))"
  using assms
proof (induction rt cfg name func attempt le s tr rule: api_retry_loop.induct)
  case (1 rt cfg name func attempt last_exception s tr)
  show ?case
  proof (cases "attempt \<le> max_retries cfg")
    case False
    then show ?thesis by (subst api_retry_loop.simps) simp
  next
    case True
    obtain r s1 where f: "func s = (r, s1)" by (cases "func s")
    from "1.prems"(1) [of s] f have p1: "prefix (sent s) (sent s1)" by simp
    show ?thesis
    proof (cases r)
      case (Inr v)
      with True f p1 show ?thesis by (subst api_retry_loop.simps) simp
    next
      case (Inl e)
      show ?thesis
      proof (cases "api_except (max_retries cfg) (attempt + 1) e")
        case (Inl t)
        with True f p1 \<open>r = Inl e\<close> show ?thesis by (subst api_retry_loop.simps) simp
      next
        case (Inr u)
        obtain w s2 where b: "calculate_backoff rt (attempt + 1) (backoff_factor cfg) (max_backoff cfg)
                                (jitter cfg) s1 = (w, s2)"
          by (cases "calculate_backoff rt (attempt + 1) (backoff_factor cfg) (max_backoff cfg) (jitter cfg) s1")
        from b sent_calculate_backoff [of env "attempt + 1" "backoff_factor cfg" "max_backoff cfg" "jitter cfg" s1]
             "1.prems"(2)
        have s2: "sent s2 = sent s1" by simp
        have s3: "sent (time_sleep rt w s2) = sent s1"
          using s2 "1.prems"(2) by (simp add: sent_time_sleep)
        from "1.IH" [OF True f [symmetric] \<open>r = Inl e\<close> Inr b [symmetric] "1.prems"]
        have "prefix (sent (time_sleep rt w s2))
                (sent (fst (snd (api_retry_loop rt cfg name func (attempt + 1) (Some e) (time_sleep rt w s2)
                   (tr\<lparr>calls := calls tr + 1, raised := raised tr @ [e], sleeps := sleeps tr @ [w]\<rparr>)))))"
          .
        with p1 s3 have "prefix (sent s)
                (sent (fst (snd (api_retry_loop rt cfg name func (attempt + 1) (Some e) (time_sleep rt w s2)
                   (tr\<lparr>calls := calls tr + 1, raised := raised tr @ [e], sleeps := sleeps tr @ [w]\<rparr>)))))"
          by (metis prefix_order.order_trans)
        with True f \<open>r = Inl e\<close> Inr b show ?thesis by (subst api_retry_loop.simps) simp
      qed
    qed
  qed
qed

lemma with_api_retry_sent:
  assumes "\<And>s. prefix (sent s) (sent (snd (func s)))"
  shows "prefix (sent s) (sent (snd (with_api_retry (api_runtime env) cfg name func s)))"
  using api_retry_loop_sent [OF assms refl, of s env cfg name 0 None "\<lparr>calls = 0, raised = [], sleeps = []\<rparr>"]
  by (simp add: with_api_retry_def with_api_retry_traced_def case_prod_beta)

lemma with_api_retry_first:
  assumes mono: "\<And>s. prefix (sent s) (sent (snd (func s)))" and mr: "0 \<le> max_retries cfg"
  shows "prefix (sent (snd (func s))) (sent (snd (with_api_retry (api_runtime env) cfg name func s)))"
proof -
  obtain r s1 where f: "func s = (r, s1)" by (cases "func s")
  show ?thesis
  proof (cases r)
    case (Inr v)
    with f mr show ?thesis
      unfolding with_api_retry_def with_api_retry_traced_def
      by (subst api_retry_loop.simps) simp
  next
    case (Inl e)
    show ?thesis
    proof (cases "api_except (max_retries cfg) (0 + 1) e")
      case (Inl t)
      with f mr \<open>r = Inl e\<close> show ?thesis
        unfolding with_api_retry_def with_api_retry_traced_def
        by (subst api_retry_loop.simps) simp
    next
      case (Inr u)
      obtain w s2 where b: "calculate_backoff (api_runtime env) (0 + 1) (backoff_factor cfg) (max_backoff cfg)
                              (jitter cfg) s1 = (w, s2)"
        by (cases "calculate_backoff (api_runtime env) (0 + 1) (backoff_factor cfg) (max_backoff cfg) (jitter cfg) s1")
      from b sent_calculate_backoff [of env "0 + 1" "backoff_factor cfg" "max_backoff cfg" "jitter cfg" s1]
      have s2: "sent s2 = sent s1" by simp
      have s3: "sent (time_sleep (api_runtime env) w s2) = sent s1"
        using s2 by (simp add: sent_time_sleep)
      from api_retry_loop_sent [OF mono refl, of "time_sleep (api_runtime env) w s2" env cfg name "0 + 1" "Some e"
              "\<lparr>calls = 0, raised = [], sleeps = []\<rparr>\<lparr>calls := calls \<lparr>calls = 0, raised = [], sleeps = []\<rparr> + 1,
                  raised := raised \<lparr>calls = 0, raised = [], sleeps = []\<rparr> @ [e],
                  sleeps := sleeps \<lparr>calls = 0, raised = [], sleeps = []\<rparr> @ [w]\<rparr>"] s3
      have "prefix (sent s1)
              (sent (fst (snd (api_retry_loop (api_runtime env) cfg name func (0 + 1) (Some e)
                 (time_sleep (api_runtime env) w s2)
                 (\<lparr>calls = 0, raised = [], sleeps = []\<rparr>\<lparr>calls := calls \<lparr>calls = 0, raised = [], sleeps = []\<rparr> + 1,
                  raised := raised \<lparr>calls = 0, raised = [], sleeps = []\<rparr> @ [e],
                  sleeps := sleeps \<lparr>calls = 0, raised = [], sleeps = []\<rparr> @ [w]\<rparr>)))))"
        by simp
      with f mr \<open>r = Inl e\<close> Inr b show ?thesis
        unfolding with_api_retry_def with_api_retry_traced_def
        by (subst api_retry_loop.simps) (simp add: case_prod_beta)
    qed
  qed
qed

lemma authenticate_body_mono: "prefix (sent s) (sent (snd (authenticate_body env s)))"
  by (simp add: sent_authenticate_body)

lemma sent_authenticate:
  "prefix (sent api @ [login_request api]) (sent (snd (authenticate env api)))"
  using with_api_retry_first [of "authenticate_body env"
          "\<lparr>max_retries = 2, backoff_factor = 2.0, max_backoff = 32.0, jitter = True\<rparr>" api env "''authenticate''"]
  by (simp add: authenticate_def authenticate_body_mono sent_authenticate_body)

lemma authenticate_mono: "prefix (sent s) (sent (snd (authenticate env s)))"
  unfolding authenticate_def by (rule with_api_retry_sent) (rule authenticate_body_mono)

lemma ensure_valid_token_mono: "prefix (sent s) (sent (snd (ensure_valid_token env s)))"
  by (simp add: ensure_valid_token_def authenticate_mono)

lemma ensure_valid_token_expired:
  "is_token_expired env api \<Longrightarrow>
   prefix (sent api @ [login_request api]) (sent (snd (ensure_valid_token env api)))"
  by (simp add: ensure_valid_token_def sent_authenticate)

lemma ensure_valid_token_fresh:
  "\<not> is_token_expired env api \<Longrightarrow> ensure_valid_token env api = (Inr (), api)"
  by (simp add: ensure_valid_token_def)

text \<open>A method body: the token check, then one request.\<close>

lemma body_sent:
  assumes body: "body api = (case ensure_valid_token env api of
                    (Inl e, api1) \<Rightarrow> (Inl e, api1)
                  | (Inr u, api1) \<Rightarrow> rest api1)"
    and rest: "\<And>a. sent (snd (rest a)) = sent a @ [req a]"
  shows "prefix (sent api) (sent (snd (body api)))"
    and "is_token_expired env api \<Longrightarrow> prefix (sent api @ [login_request api]) (sent (snd (body api)))"
    and "\<not> is_token_expired env api \<Longrightarrow> sent (snd (body api)) = sent api @ [req api]"
proof -
  obtain r api1 where e: "ensure_valid_token env api = (r, api1)"
    by (cases "ensure_valid_token env api")
  from ensure_valid_token_mono [of api env] e have m: "prefix (sent api) (sent api1)" by simp
  have ext: "prefix (sent api1) (sent (snd (body api)))"
    unfolding body e using rest [of api1] by (cases r) simp_all
  from m ext show "prefix (sent api) (sent (snd (body api)))"
    by (rule prefix_order.order_trans)
  show "prefix (sent api @ [login_request api]) (sent (snd (body api)))" if "is_token_expired env api"
  proof -
    from ensure_valid_token_expired [OF that] e
    have "prefix (sent api @ [login_request api]) (sent api1)" by simp
    from this ext show ?thesis by (rule prefix_order.order_trans)
  qed
  show "sent (snd (body api)) = sent api @ [req api]" if "\<not> is_token_expired env api"
    unfolding body ensure_valid_token_fresh [OF that] using rest [of api] by simp
qed

lemma accounts_rest:
  "sent (snd (case request_json env (accounts_request a) a of
             (Inl e, api2) \<Rightarrow> (Inl e, api2)
           | (Inr (JObj d), api2) \<Rightarrow>
               (let accounts_list = dict_get d ''Accounts'' (JArr []) in
                case py_len accounts_list of
                  Inl e \<Rightarrow> (Inl e, api2)
                | Inr n \<Rightarrow> (Inr accounts_list, api2))
           | (Inr j, api2) \<Rightarrow> (Inl (PyError ''AttributeError'' ''object has no attribute get''), api2)))
     = sent a @ [accounts_request a]"
  using sent_request_json [of env "accounts_request a" a]
  by (auto simp: Let_def split: prod.splits sum.splits json.splits)

lemma transactions_rest:
  "sent (snd (case request_json env (transactions_request a account_id start_arg end_arg) a of
             (Inl e, api2) \<Rightarrow> (Inl e, api2)
           | (Inr response, api2) \<Rightarrow> (unwrap_transactions response, api2)))
     = sent a @ [transactions_request a account_id start_arg end_arg]"
  using sent_request_json [of env "transactions_request a account_id start_arg end_arg" a]
  by (auto split: prod.splits sum.splits)

lemmas accounts_sent = body_sent [where body = "accounts_body env" and env = env
    and req = accounts_request, OF accounts_body_def accounts_rest] for env

lemmas details_sent = body_sent [where body = "get_account_details_body env account_id" and env = env
    and req = "\<lambda>a. details_request a account_id", OF get_account_details_body_def sent_request_json]
  for env account_id

lemmas transactions_sent = body_sent [where body = "transactions_body env account_id start_arg end_arg"
    and env = env and req = "\<lambda>a. transactions_request a account_id start_arg end_arg",
    OF transactions_body_def transactions_rest]
  for env account_id start_arg end_arg

lemma decorated_first:
  assumes "\<And>s. prefix (sent s) (sent (snd (body s)))" and "prefix xs (sent (snd (body api)))"
  shows "prefix xs (sent (snd (with_api_retry (api_runtime env)
            \<lparr>max_retries = 3, backoff_factor = 2.0, max_backoff = 32.0, jitter = True\<rparr> name body api)))"
proof -
  from with_api_retry_first [of body "\<lparr>max_retries = 3, backoff_factor = 2.0, max_backoff = 32.0, jitter = True\<rparr>"
          api env name] assms(1)
  have "prefix (sent (snd (body api))) (sent (snd (with_api_retry (api_runtime env)
            \<lparr>max_retries = 3, backoff_factor = 2.0, max_backoff = 32.0, jitter = True\<rparr> name body api)))"
    by simp
  with assms(2) show ?thesis by (rule prefix_order.order_trans)
qed

text \<open>
  Claim C7, amended. A token is usable exactly while \<open>now \<le> expiresAt - 300\<close>; a token
  with expiry \<open>t0 + 3600\<close> is expired for use at \<open>t0 + 3301\<close> and valid at
  \<open>t0 + 3000\<close>. Each of \<open>accounts\<close>, \<open>get_account_details\<close> and \<open>transactions\<close>
  first checks the token: when it is expired or absent, the first request the call hands to
  the transport is the login; otherwise the first request is the one for the data, with the
  token in its header.
\<close>

theorem token_checked_before_every_fetch:
  "((\<not> is_token_expired env api) =
      (\<exists>t. api_tok api = Some t \<and> time_time env (world api) \<le> tok_exp t - 300))
   \<and> (api_tok api = Some t \<and> tok_exp t = t0 + 3600 \<longrightarrow>
        (time_time env (world api) = t0 + 3301 \<longrightarrow> is_token_expired env api)
      \<and> (time_time env (world api) = t0 + 3000 \<longrightarrow> \<not> is_token_expired env api))
   \<and> (is_token_expired env api \<longrightarrow>
        prefix (sent api @ [login_request api]) (sent (snd (accounts env api)))
      \<and> prefix (sent api @ [login_request api]) (sent (snd (get_account_details env account_id api)))
      \<and> prefix (sent api @ [login_request api])
               (sent (snd (transactions env account_id start_arg end_arg api))))
   \<and> (\<not> is_token_expired env api \<longrightarrow>
        prefix (sent api @ [accounts_request api]) (sent (snd (accounts env api)))
      \<and> prefix (sent api @ [details_request api account_id])
               (sent (snd (get_account_details env account_id api)))
      \<and> prefix (sent api @ [transactions_request api account_id start_arg end_arg])
               (sent (snd (transactions env account_id start_arg end_arg api))))"
proof (intro conjI impI)
  show "(\<not> is_token_expired env api) =
      (\<exists>t. api_tok api = Some t \<and> time_time env (world api) \<le> tok_exp t - 300)"
    using token_usable_iff [of env api] by (simp add: TOKEN_REFRESH_BUFFER_def)
  show "is_token_expired env api"
    if "api_tok api = Some t \<and> tok_exp t = t0 + 3600" "time_time env (world api) = t0 + 3301"
    using that by (simp add: is_token_expired_def TOKEN_REFRESH_BUFFER_def)
  show "\<not> is_token_expired env api"
    if "api_tok api = Some t \<and> tok_exp t = t0 + 3600" "time_time env (world api) = t0 + 3000"
    using that by (simp add: is_token_expired_def TOKEN_REFRESH_BUFFER_def)
  show "prefix (sent api @ [login_request api]) (sent (snd (accounts env api)))"
    if "is_token_expired env api"
    unfolding accounts_def by (rule decorated_first [OF accounts_sent(1) accounts_sent(2) [OF that]])
  show "prefix (sent api @ [login_request api]) (sent (snd (get_account_details env account_id api)))"
    if "is_token_expired env api"
    unfolding get_account_details_def by (rule decorated_first [OF details_sent(1) details_sent(2) [OF that]])
  show "prefix (sent api @ [login_request api])
               (sent (snd (transactions env account_id start_arg end_arg api)))"
    if "is_token_expired env api"
    unfolding transactions_def
    by (rule decorated_first [OF transactions_sent(1) transactions_sent(2) [OF that]])
  show "prefix (sent api @ [accounts_request api]) (sent (snd (accounts env api)))"
    if "\<not> is_token_expired env api"
    unfolding accounts_def
    by (rule decorated_first [OF accounts_sent(1)]) (simp add: accounts_sent(3) [OF that])
  show "prefix (sent api @ [details_request api account_id])
               (sent (snd (get_account_details env account_id api)))"
    if "\<not> is_token_expired env api"
    unfolding get_account_details_def
    by (rule decorated_first [OF details_sent(1)]) (simp add: details_sent(3) [OF that])
  show "prefix (sent api @ [transactions_request api account_id start_arg end_arg])
               (sent (snd (transactions env account_id start_arg end_arg api)))"
    if "\<not> is_token_expired env api"
    unfolding transactions_def
    by (rule decorated_first [OF transactions_sent(1)]) (simp add: transactions_sent(3) [OF that])
qed

text \<open>Claim C7 as stated fails on the boundary: at \<open>now = expiresAt - 300\<close> the time
  until expiry is 300, which is not below the buffer, so the token is used.\<close>

theorem token_boundary_counterexample:
  "api_tok (client_at 3300) = Some \<lparr>tok_value = ''abc'', tok_exp = 3600\<rparr>
   \<and> time_time clock_env (world (client_at 3300)) = 3300
   \<and> \<not> is_token_expired clock_env (client_at 3300)
   \<and> \<not> (3300 < 3600 - TOKEN_REFRESH_BUFFER)"
  by (simp add: is_token_expired_def clock_env_def client_at_def TOKEN_REFRESH_BUFFER_def)

lemmas client_eval = accounts_def accounts_body_def ensure_valid_token_def is_token_expired_def
  authenticate_def authenticate_body_def authenticate_try_def request_json_def client_send_def
  login_request_def accounts_request_def headers_def api_runtime_def
  with_api_retry_def with_api_retry_traced_def api_retry_loop.simps calculate_backoff_def
  random_uniform_def clock_env_def client_at_def TOKEN_REFRESH_BUFFER_def power_int_def Let_def
  str_of_int_def digit_char_def

theorem token_checked_before_every_fetch_witness:
  "is_token_expired clock_env (client_at 3301)
   \<and> \<not> is_token_expired clock_env (client_at 3000)
   \<and> sent (snd (accounts clock_env (client_at 3301)))
       = [login_request (client_at 3301), login_request (client_at 3301), login_request (client_at 3301)]
   \<and> prefix (sent (client_at 3000) @ [accounts_request (client_at 3000)])
            (sent (snd (accounts clock_env (client_at 3000))))
   \<and> req_headers (accounts_request (client_at 3000)) = [(''Authorization'', ''abc'')]"
proof -
  have h1: "is_token_expired clock_env (client_at 3301)"
    by (simp add: is_token_expired_def clock_env_def client_at_def TOKEN_REFRESH_BUFFER_def)
  have h2: "\<not> is_token_expired clock_env (client_at 3000)"
    by (simp add: is_token_expired_def clock_env_def client_at_def TOKEN_REFRESH_BUFFER_def)
  have h3: "sent (snd (accounts clock_env (client_at 3301)))
       = [login_request (client_at 3301), login_request (client_at 3301), login_request (client_at 3301)]"
    by (simp add: client_eval)
  have h4: "req_headers (accounts_request (client_at 3000)) = [(''Authorization'', ''abc'')]"
    by (simp add: accounts_request_def headers_def client_at_def)
  from token_checked_before_every_fetch [of clock_env "client_at 3000"] h2
  have h5: "prefix (sent (client_at 3000) @ [accounts_request (client_at 3000)])
            (sent (snd (accounts clock_env (client_at 3000))))"
    by blast
  from token_checked_before_every_fetch [of clock_env "client_at 3301"] h1 h2 h3 h4 h5
  show ?thesis by blast
qed

section \<open>Properties of the transaction reconciliation\<close>

lemma empty_df_rename: "empty_df (rename df m) = empty_df df"
  by (simp add: empty_df_def rename_def)

lemma empty_df_normalize_column_names: "empty_df (normalize_column_names df rules) = empty_df df"
  by (simp add: normalize_column_names_rename empty_df_rename)

lemma get_column_length: "get_column df col = Inr vals \<Longrightarrow> length vals = length (rows df)"
  by (auto simp: get_column_def split: if_splits)

lemma account_id_as_str_shape:
  "columns (account_id_as_str pd df) = columns df"
  "length (rows (account_id_as_str pd df)) = length (rows df)"
  by (auto simp: account_id_as_str_def columns_set_column length_rows_set_column
           dest: get_column_length split: sum.splits)

lemma empty_df_account_id_as_str: "empty_df (account_id_as_str pd df) = empty_df df"
  using account_id_as_str_shape [of pd df] unfolding empty_df_def by (metis length_0_conv)

lemma empty_df_normalize_web: "empty_df (normalize_web pd web_df) = empty_df web_df"
  by (simp add: normalize_web_def empty_df_account_id_as_str empty_df_normalize_column_names
        empty_df_rename)

lemma summarize_never_raises: "\<exists>summary. summarize_api_transactions pd df = Inr summary"
  by (simp add: summarize_api_transactions_def Let_def split: sum.splits)

lemma summarize_missing_columns:
  assumes "\<not> empty_df df"
    and "\<not> list_all (\<lambda>col. col \<in> set (columns df)) [''account_id'', ''debit'', ''credit'', ''transaction_id'']"
  shows "summarize_api_transactions pd df =
     Inr (one_row [(''Status'', CStr ''Cannot summarize transactions''),
                   (''Missing_Columns'',
                      CStr (str_join '', '' (filter (\<lambda>col. col \<notin> set (columns df))
                              [''account_id'', ''debit'', ''credit'', ''transaction_id'']))),
                   (''Available_Columns'', CStr (str_join '', '' (columns df)))])"
proof -
  have "filter (\<lambda>col. col \<notin> set (columns df)) [''account_id'', ''debit'', ''credit'', ''transaction_id''] \<noteq> []"
    using assms(2) unfolding filter_empty_conv list_all_iff by blast
  with assms(1) show ?thesis
    unfolding summarize_api_transactions_def Let_def by (simp only: if_False if_True not_False_eq_True)
qed

lemma assign_const_tag:
  assumes "wf_df df" and "i < length (rows df)"
  shows "row_get (columns (assign_const df col v)) (rows (assign_const df col v) ! i) col = Some v"
proof -
  have len: "length (replicate (length (rows df)) v) = length (rows df)" by simp
  from row_get_set_column [OF assms(2) len wf_df_row [OF assms], of col col] assms(2)
  show ?thesis unfolding assign_const_def by simp
qed

text \<open>
  Claim C2, amended. Transaction reconciliation returns a table and does not raise on
  degenerate input. When both sides are empty the result is the one-row record that no data
  was available. When exactly one side is empty the join is skipped and the result is what
  the summarizer returns for the other side, with the column \<open>data_source\<close> set in every
  row to the marker that names the empty side; the summarizer never raises, and for a table
  that lacks one of \<open>account_id\<close>, \<open>debit\<close>, \<open>credit\<close>, \<open>transaction_id\<close> it
  returns a one-row record that lists the missing columns instead of a summary. When neither
  side is empty and \<open>account_id\<close> is absent, the result is the one-row record that names
  the malformed side (the API side first) and the missing column.
\<close>

theorem reconcile_transactions_degenerate:
  "(empty_df api_df \<and> empty_df web_df \<longrightarrow>
      reconcile_transactions pd api_df web_df =
        Inr (one_row [(''Status'', CStr ''No transaction data available from API or Web'')]))
   \<and> (empty_df api_df \<and> \<not> empty_df web_df \<longrightarrow>
        (\<exists>summary. summarize_api_transactions pd (normalize_web pd web_df) = Inr summary
           \<and> reconcile_transactions pd api_df web_df =
               Inr (assign_const summary ''data_source'' (CStr ''Web Only (API Empty)''))))
   \<and> (\<not> empty_df api_df \<and> empty_df web_df \<longrightarrow>
        (\<exists>summary. summarize_api_transactions pd (account_id_as_str pd api_df) = Inr summary
           \<and> reconcile_transactions pd api_df web_df =
               Inr (assign_const summary ''data_source'' (CStr ''API Only (Web Empty)''))))
   \<and> (\<not> empty_df api_df \<and> \<not> empty_df web_df \<and> ''account_id'' \<notin> set (columns api_df) \<longrightarrow>
        reconcile_transactions pd api_df web_df =
          Inr (one_row [(''Status'', CStr ''Error: API data malformed''),
                        (''Details'', CStr ''Missing account_id column'')]))
   \<and> (\<not> empty_df api_df \<and> \<not> empty_df web_df \<and> ''account_id'' \<in> set (columns api_df)
        \<and> ''account_id'' \<notin> set (columns (normalize_web pd web_df)) \<longrightarrow>
        reconcile_transactions pd api_df web_df =
          Inr (one_row [(''Status'', CStr ''Error: Web data malformed''),
                        (''Details'', CStr ''Missing account_id column'')]))
   \<and> (\<not> empty_df df
        \<and> \<not> list_all (\<lambda>col. col \<in> set (columns df)) [''account_id'', ''debit'', ''credit'', ''transaction_id'']
      \<longrightarrow> summarize_api_transactions pd df =
            Inr (one_row [(''Status'', CStr ''Cannot summarize transactions''),
                          (''Missing_Columns'',
                             CStr (str_join '', '' (filter (\<lambda>col. col \<notin> set (columns df))
                                     [''account_id'', ''debit'', ''credit'', ''transaction_id'']))),
                          (''Available_Columns'', CStr (str_join '', '' (columns df)))]))
   \<and> (wf_df tagged \<and> i < length (rows tagged) \<longrightarrow>
        row_get (columns (assign_const tagged ''data_source'' marker))
                (rows (assign_const tagged ''data_source'' marker) ! i) ''data_source'' = Some marker)"
proof (intro conjI impI; (elim conjE)?)
  show "reconcile_transactions pd api_df web_df =
        Inr (one_row [(''Status'', CStr ''No transaction data available from API or Web'')])"
    if "empty_df api_df" "empty_df web_df"
    using that
    by (simp add: reconcile_transactions_def Let_def empty_df_account_id_as_str empty_df_normalize_web)
  show "\<exists>summary. summarize_api_transactions pd (normalize_web pd web_df) = Inr summary
           \<and> reconcile_transactions pd api_df web_df =
               Inr (assign_const summary ''data_source'' (CStr ''Web Only (API Empty)''))"
    if "empty_df api_df" "\<not> empty_df web_df"
  proof -
    from summarize_never_raises obtain summary
      where s: "summarize_api_transactions pd (normalize_web pd web_df) = Inr summary" by blast
    with that show ?thesis
      by (simp add: reconcile_transactions_def Let_def empty_df_account_id_as_str
            empty_df_normalize_web bind_exn_def)
  qed
  show "\<exists>summary. summarize_api_transactions pd (account_id_as_str pd api_df) = Inr summary
           \<and> reconcile_transactions pd api_df web_df =
               Inr (assign_const summary ''data_source'' (CStr ''API Only (Web Empty)''))"
    if "\<not> empty_df api_df" "empty_df web_df"
  proof -
    from summarize_never_raises obtain summary
      where s: "summarize_api_transactions pd (account_id_as_str pd api_df) = Inr summary" by blast
    with that show ?thesis
      by (simp add: reconcile_transactions_def Let_def empty_df_account_id_as_str
            empty_df_normalize_web bind_exn_def)
  qed
  show "reconcile_transactions pd api_df web_df =
          Inr (one_row [(''Status'', CStr ''Error: API data malformed''),
                        (''Details'', CStr ''Missing account_id column'')])"
    if "\<not> empty_df api_df" "\<not> empty_df web_df" "''account_id'' \<notin> set (columns api_df)"
    using that
    by (simp add: reconcile_transactions_def Let_def empty_df_account_id_as_str
          empty_df_normalize_web account_id_as_str_shape)
  show "reconcile_transactions pd api_df web_df =
          Inr (one_row [(''Status'', CStr ''Error: Web data malformed''),
                        (''Details'', CStr ''Missing account_id column'')])"
    if "\<not> empty_df api_df" "\<not> empty_df web_df" "''account_id'' \<in> set (columns api_df)"
       "''account_id'' \<notin> set (columns (normalize_web pd web_df))"
    using that
    by (simp add: reconcile_transactions_def Let_def empty_df_account_id_as_str
          empty_df_normalize_web account_id_as_str_shape)
  show "summarize_api_transactions pd df =
            Inr (one_row [(''Status'', CStr ''Cannot summarize transactions''),
                          (''Missing_Columns'',
                             CStr (str_join '', '' (filter (\<lambda>col. col \<notin> set (columns df))
                                     [''account_id'', ''debit'', ''credit'', ''transaction_id'']))),
                          (''Available_Columns'', CStr (str_join '', '' (columns df)))])"
    if "\<not> empty_df df"
       "\<not> list_all (\<lambda>col. col \<in> set (columns df)) [''account_id'', ''debit'', ''credit'', ''transaction_id'']"
    using that by (rule summarize_missing_columns)
  show "row_get (columns (assign_const tagged ''data_source'' marker))
                (rows (assign_const tagged ''data_source'' marker) ! i) ''data_source'' = Some marker"
    if "wf_df tagged" "i < length (rows tagged)"
    using that by (rule assign_const_tag)
qed

lemmas recon_eval = reconcile_transactions_def normalize_web_def account_id_as_str_def
  summarize_api_transactions_def group_and_sum_by_account_def calculate_net_amount_def
  column_diff_def bind_exn_def assign_const_def set_column_def get_column_def row_get_def
  rename_def normalize_column_names_def display_to_programmatic_def fuzzy_rules_def
  lower_def lower_char_def empty_df_def empty_frame_def one_row_def List.map_filter_def
  web_without_amounts_def web_complete_def raising_pandas_def summing_pandas_def Let_def

text \<open>Claim C2 as stated fails twice. With an empty API side and a web table without
  amount columns the result is a record of missing columns, not a summary of the web side.
  With an API side that is empty and so has no \<open>account_id\<close> column, and a complete web
  table, the result is the two-row web summary, not a one-row record that names the API
  side as malformed.\<close>

theorem reconcile_transactions_counterexample:
  "empty_df empty_frame \<and> \<not> empty_df web_without_amounts
   \<and> reconcile_transactions raising_pandas empty_frame web_without_amounts =
       Inr \<lparr>columns = [''Status'', ''Missing_Columns'', ''Available_Columns'', ''data_source''],
            rows = [[CStr ''Cannot summarize transactions'', CStr ''debit, credit, transaction_id'',
                     CStr ''account_id, action'', CStr ''Web Only (API Empty)'']]\<rparr>
   \<and> ''account_id'' \<notin> set (columns empty_frame) \<and> \<not> empty_df web_complete
   \<and> reconcile_transactions summing_pandas empty_frame web_complete =
       Inr \<lparr>columns = [''account_id'', ''total_debits'', ''total_credits'', ''transaction_count'',
                       ''net_amount'', ''data_source''],
            rows = [[CStr ''800002'', CNum 5, CNum 0, CNum 1, CNum (- 5), CStr ''Web Only (API Empty)''],
                    [CStr ''800003'', CNum 0, CNum 7, CNum 1, CNum 7, CStr ''Web Only (API Empty)'']]\<rparr>"
  by (simp add: recon_eval)

theorem reconcile_transactions_degenerate_witness:
  "empty_df empty_frame \<and> \<not> empty_df web_complete \<and> \<not> empty_df web_without_amounts
   \<and> ''account_id'' \<notin> set (columns web_without_amounts)
   \<and> \<not> list_all (\<lambda>col. col \<in> set (columns web_without_amounts))
            [''account_id'', ''debit'', ''credit'', ''transaction_id'']
   \<and> wf_df web_complete \<and> 0 < length (rows web_complete)
   \<and> reconcile_transactions summing_pandas empty_frame empty_frame =
       Inr (one_row [(''Status'', CStr ''No transaction data available from API or Web'')])
   \<and> reconcile_transactions summing_pandas empty_frame web_complete =
       Inr \<lparr>columns = [''account_id'', ''total_debits'', ''total_credits'', ''transaction_count'',
                       ''net_amount'', ''data_source''],
            rows = [[CStr ''800002'', CNum 5, CNum 0, CNum 1, CNum (- 5), CStr ''Web Only (API Empty)''],
                    [CStr ''800003'', CNum 0, CNum 7, CNum 1, CNum 7, CStr ''Web Only (API Empty)'']]\<rparr>
   \<and> reconcile_transactions summing_pandas web_without_amounts web_complete =
       Inr (one_row [(''Status'', CStr ''Error: API data malformed''),
                     (''Details'', CStr ''Missing account_id column'')])
   \<and> summarize_api_transactions summing_pandas web_without_amounts =
       Inr (one_row [(''Status'', CStr ''Cannot summarize transactions''),
                     (''Missing_Columns'', CStr ''account_id, debit, credit, transaction_id''),
                     (''Available_Columns'', CStr ''Account ID, Action'')])
   \<and> row_get (columns (assign_const web_complete ''data_source'' (CStr ''API Only (Web Empty)'')))
              (rows (assign_const web_complete ''data_source'' (CStr ''API Only (Web Empty)'')) ! 0)
              ''data_source'' = Some (CStr ''API Only (Web Empty)'')"
proof -
  have e: "empty_df empty_frame" "\<not> empty_df web_complete" "\<not> empty_df web_without_amounts"
    by (simp_all add: empty_df_def empty_frame_def web_complete_def web_without_amounts_def)
  have c: "''account_id'' \<notin> set (columns web_without_amounts)"
    "\<not> list_all (\<lambda>col. col \<in> set (columns web_without_amounts))
            [''account_id'', ''debit'', ''credit'', ''transaction_id'']"
    by (simp_all add: web_without_amounts_def)
  have w: "wf_df web_complete" "0 < length (rows web_complete)"
    by (simp_all add: wf_df_def web_complete_def)
  have s: "summarize_api_transactions summing_pandas (normalize_web summing_pandas web_complete) =
       Inr \<lparr>columns = [''account_id'', ''total_debits'', ''total_credits'', ''transaction_count'',
                       ''net_amount'', ''data_source''],
            rows = [[CStr ''800002'', CNum 5, CNum 0, CNum 1, CNum (- 5), CStr ''Transaction Summary''],
                    [CStr ''800003'', CNum 0, CNum 7, CNum 1, CNum 7, CStr ''Transaction Summary'']]\<rparr>"
    by (simp add: recon_eval)
  from reconcile_transactions_degenerate
         [of empty_frame web_complete summing_pandas web_without_amounts web_complete 0
             "CStr ''API Only (Web Empty)''"] e c w s
  have a: "reconcile_transactions summing_pandas empty_frame web_complete =
       Inr \<lparr>columns = [''account_id'', ''total_debits'', ''total_credits'', ''transaction_count'',
                       ''net_amount'', ''data_source''],
            rows = [[CStr ''800002'', CNum 5, CNum 0, CNum 1, CNum (- 5), CStr ''Web Only (API Empty)''],
                    [CStr ''800003'', CNum 0, CNum 7, CNum 1, CNum 7, CStr ''Web Only (API Empty)'']]\<rparr>"
    and b: "summarize_api_transactions summing_pandas web_without_amounts =
       Inr (one_row [(''Status'', CStr ''Cannot summarize transactions''),
                     (''Missing_Columns'', CStr ''account_id, debit, credit, transaction_id''),
                     (''Available_Columns'', CStr ''Account ID, Action'')])"
    and t: "row_get (columns (assign_const web_complete ''data_source'' (CStr ''API Only (Web Empty)'')))
              (rows (assign_const web_complete ''data_source'' (CStr ''API Only (Web Empty)'')) ! 0)
              ''data_source'' = Some (CStr ''API Only (Web Empty)'')"
    by (simp_all add: assign_const_def set_column_def web_without_amounts_def)
  from reconcile_transactions_degenerate
         [of empty_frame empty_frame summing_pandas web_without_amounts web_complete 0
             "CStr ''API Only (Web Empty)''"] e
  have n: "reconcile_transactions summing_pandas empty_frame empty_frame =
       Inr (one_row [(''Status'', CStr ''No transaction data available from API or Web'')])"
    by blast
  from reconcile_transactions_degenerate
         [of web_without_amounts web_complete summing_pandas web_without_amounts web_complete 0
             "CStr ''API Only (Web Empty)''"] e c
  have m: "reconcile_transactions summing_pandas web_without_amounts web_complete =
       Inr (one_row [(''Status'', CStr ''Error: API data malformed''),
                     (''Details'', CStr ''Missing account_id column'')])"
    by blast
  from e c w n a m b t show ?thesis by blast
qed

end
